theory Spec2Isabelle
  imports Complex_Main
begin

chapter \<open>The BMAD / Linear synchronisation engine: definitions\<close>

text \<open>
  The Python modules under \<^verbatim>\<open>.sync/lib\<close> are embedded function by function.
  Exceptions are values of \<open>py_error\<close> on the left of a sum, dictionaries are
  association lists in insertion order (a Python \<open>dict\<close> keeps it), Python integers
  are \<open>int\<close>, and every call that leaves the process (the tracker CLI, the clock, the
  JSON, ISO-8601 and SHA-256 library routines) is a parameter of the function that makes
  the call.
\<close>

section \<open>Python values shared by the modules\<close>

datatype py_error =
    ValueError string
  | TypeError string
  | KeyError string
  | LinctlError string
  | StateMappingError string
  | StateError string

text \<open>A dictionary: \<open>d.get(k)\<close> is \<open>map_of d k\<close>, \<open>d.keys()\<close> is \<open>map fst d\<close>.\<close>

type_synonym ('k, 'v) dict = "('k \<times> 'v) list"

text \<open>\<open>d[k] = v\<close>: an existing key keeps its position, a new key goes to the end.\<close>

fun dict_set :: "'k \<Rightarrow> 'v \<Rightarrow> ('k, 'v) dict \<Rightarrow> ('k, 'v) dict" where
  "dict_set k v [] = [(k, v)]"
| "dict_set k v ((k', v') # d) =
     (if k' = k then (k, v) # d else (k', v') # dict_set k v d)"

section \<open>\<^verbatim>\<open>epic_numbering.py\<close>\<close>

record EpicNumberRange =
  epic_number :: int
  base_number :: int
  range_start :: int
  range_end :: int
  reserved_count :: int

text \<open>
  One value of \<open>_registry["epics"]\<close>. The field \<open>range\<close> is the two-element list
  \<open>[range_start, range_end]\<close>; \<open>reserved_at\<close> is the clock reading of the call.
\<close>

record epic_meta =
  meta_epic_number :: int
  meta_base :: int
  meta_range :: "int \<times> int"
  meta_reserved_count :: int
  meta_reserved_at :: string

text \<open>
  \<open>EpicNumberingSystem\<close>: the two configuration fields and the registry. The key of
  \<open>_registry["epics"]\<close> is \<open>str(epic_number)\<close>; \<open>str\<close> is injective on
  integers, so the key is kept as the integer it prints.
\<close>

record EpicNumberingSystem =
  epic_base :: int
  block_size :: int
  registry_epics :: "(int, epic_meta) dict"
  registry_reserved_ranges :: "(int \<times> int) list"

text \<open>\<open>__init__\<close> with no registry file on disk: \<open>_create_empty_registry\<close>.\<close>

definition new_numbering_system :: "int \<Rightarrow> int \<Rightarrow> EpicNumberingSystem" where
  "new_numbering_system base block =
     \<lparr>epic_base = base, block_size = block, registry_epics = [],
      registry_reserved_ranges = []\<rparr>"

definition calculate_epic_range :: "EpicNumberingSystem \<Rightarrow> int \<Rightarrow> EpicNumberRange" where
  "calculate_epic_range sys n =
     (let base = epic_base sys + ((n - 1) * block_size sys)
      in \<lparr>epic_number = n, base_number = base, range_start = base,
          range_end = base + block_size sys - 1, reserved_count = block_size sys\<rparr>)"

text \<open>The entries of the conflict list carry \<open>epic\<close>, \<open>range\<close> and \<open>base\<close>.\<close>

definition check_conflicts ::
  "EpicNumberingSystem \<Rightarrow> EpicNumberRange \<Rightarrow> (int \<times> (int \<times> int) \<times> int) list" where
  "check_conflicts sys epic_range =
     map (\<lambda>(epic_key, meta). (meta_epic_number meta, meta_range meta, meta_base meta))
       (filter (\<lambda>(epic_key, meta).
                  meta_epic_number meta \<noteq> epic_number epic_range \<and>
                  range_start epic_range \<le> snd (meta_range meta) \<and>
                  range_end epic_range \<ge> fst (meta_range meta))
          (registry_epics sys))"

text \<open>
  \<open>reserve_epic_range\<close> raises \<open>ValueError\<close> before it touches the registry, so a
  failed call leaves the system as it was; a successful one returns the new system and
  the reserved range. \<open>now\<close> is \<open>datetime.now(timezone.utc).isoformat()\<close>.
\<close>

definition reserve_epic_range ::
  "string \<Rightarrow> EpicNumberingSystem \<Rightarrow> int \<Rightarrow> py_error + (EpicNumberingSystem \<times> EpicNumberRange)" where
  "reserve_epic_range now sys n =
     (let epic_range = calculate_epic_range sys n;
          conflicts = check_conflicts sys epic_range
      in if conflicts \<noteq> [] then Inl (ValueError ''range conflicts with existing reservations'')
         else
           let meta = \<lparr>meta_epic_number = n, meta_base = base_number epic_range,
                       meta_range = (range_start epic_range, range_end epic_range),
                       meta_reserved_count = reserved_count epic_range,
                       meta_reserved_at = now\<rparr>;
               epics = dict_set n meta (registry_epics sys)
           in Inr (sys\<lparr>registry_epics := epics,
                       registry_reserved_ranges := map (\<lambda>(k, m). meta_range m) epics\<rparr>,
                   epic_range))"

text \<open>
  The systems that sequences of successful \<open>reserve_epic_range\<close> calls produce from an
  empty registry. A later process may open the same registry with another
  \<open>epic_base\<close> or \<open>block_size\<close> (rule \<open>reopened\<close>).
\<close>

inductive reserved_from_empty :: "EpicNumberingSystem \<Rightarrow> bool" where
  fresh: "reserved_from_empty (new_numbering_system base block)"
| reserved: "reserved_from_empty sys \<Longrightarrow> reserve_epic_range now sys n = Inr (sys', r)
             \<Longrightarrow> reserved_from_empty sys'"
| reopened: "reserved_from_empty sys
             \<Longrightarrow> reserved_from_empty (sys\<lparr>epic_base := base, block_size := block\<rparr>)"

text \<open>The integers of a reserved range \<open>[start, end]\<close>.\<close>

definition range_numbers :: "epic_meta \<Rightarrow> int set" where
  "range_numbers m = {fst (meta_range m) .. snd (meta_range m)}"

definition ranges_disjoint :: "EpicNumberingSystem \<Rightarrow> bool" where
  "ranges_disjoint sys \<longleftrightarrow>
     (\<forall>(k1, a) \<in> set (registry_epics sys). \<forall>(k2, b) \<in> set (registry_epics sys).
        meta_epic_number a \<noteq> meta_epic_number b \<longrightarrow> range_numbers a \<inter> range_numbers b = {})"

section \<open>Python strings and datetimes\<close>

text \<open>
  A \<open>str\<close> is a \<open>string\<close>; a character stands for the code point of the same number
  (the Latin-1 range of Unicode). A value used as a condition is false when it is
  \<open>None\<close> or empty.
\<close>

definition truthy :: "string option \<Rightarrow> bool" where
  "truthy v = (case v of None \<Rightarrow> False | Some s \<Rightarrow> s \<noteq> [])"

text \<open>
  \<open>s.replace(old, new)\<close> for a non-empty \<open>old\<close>: the occurrences are replaced from
  the left and do not overlap. (Every call in these modules passes a non-empty literal.)
\<close>

fun str_replace :: "string \<Rightarrow> string \<Rightarrow> string \<Rightarrow> string" where
  "str_replace old new [] = []"
| "str_replace old new (c # cs) =
     (if old \<noteq> [] \<and> take (length old) (c # cs) = old
      then new @ str_replace old new (drop (length old) (c # cs))
      else c # str_replace old new cs)"

text \<open>
  \<open>datetime\<close>: a naive value is a wall-clock reading, an aware one an instant, both
  counted in microseconds. Python orders two naive or two aware values and raises
  \<open>TypeError\<close> when one is naive and the other aware.
\<close>

datatype datetime = Naive int | Aware int

fun datetime_gt :: "datetime \<Rightarrow> datetime \<Rightarrow> py_error + bool" where
  "datetime_gt (Naive a) (Naive b) = Inr (a > b)"
| "datetime_gt (Aware a) (Aware b) = Inr (a > b)"
| "datetime_gt a b = Inl (TypeError ''can't compare offset-naive and offset-aware datetimes'')"

text \<open>
  \<open>datetime.fromisoformat(s.replace('Z', '+00:00'))\<close>. The library parser
  \<open>fromisoformat\<close> is a parameter: \<open>None\<close> is its \<open>ValueError\<close>.
\<close>

definition parse_timestamp :: "(string \<Rightarrow> datetime option) \<Rightarrow> string \<Rightarrow> py_error + datetime" where
  "parse_timestamp fromisoformat s =
     (case fromisoformat (str_replace ''Z'' ''+00:00'' s) of
        None \<Rightarrow> Inl (ValueError ''Invalid isoformat string'')
      | Some t \<Rightarrow> Inr t)"

section \<open>\<^verbatim>\<open>state_mapper.py\<close>\<close>

text \<open>
  The part of the YAML configuration that the mapping functions read:
  \<open>story_states\<close> and \<open>epic_states\<close> with their two tables,
  \<open>validation.strict_mode\<close>, and the rules of
  \<open>context_aware_mapping.todo_to_bmad_logic\<close>, each a \<open>condition\<close> and a
  \<open>result\<close>.
\<close>

record mapper_config =
  story_bmad_to_linear :: "(string, string) dict"
  story_linear_to_bmad :: "(string, string) dict"
  epic_bmad_to_linear :: "(string, string) dict"
  epic_linear_to_bmad :: "(string, string) dict"
  strict_mode :: bool
  todo_to_bmad_logic :: "(string \<times> string) list"

text \<open>\<open>config.get(f'{content_type}_states', {}).get(table, {})\<close>.\<close>

definition bmad_to_linear_table :: "mapper_config \<Rightarrow> string \<Rightarrow> (string, string) dict" where
  "bmad_to_linear_table cfg content_type =
     (if content_type = ''story'' then story_bmad_to_linear cfg
      else if content_type = ''epic'' then epic_bmad_to_linear cfg else [])"

definition linear_to_bmad_table :: "mapper_config \<Rightarrow> string \<Rightarrow> (string, string) dict" where
  "linear_to_bmad_table cfg content_type =
     (if content_type = ''story'' then story_linear_to_bmad cfg
      else if content_type = ''epic'' then epic_linear_to_bmad cfg else [])"

definition bmad_to_linear :: "mapper_config \<Rightarrow> string \<Rightarrow> string \<Rightarrow> py_error + string" where
  "bmad_to_linear cfg bmad_state content_type =
     (if bmad_state = [] then Inr ''Backlog''
      else case map_of (bmad_to_linear_table cfg content_type) bmad_state of
             None \<Rightarrow> if strict_mode cfg
                     then Inl (StateMappingError (''Unknown BMAD state: '' @ bmad_state))
                     else Inr ''Backlog''
           | Some linear_state \<Rightarrow> Inr linear_state)"

text \<open>
  The loop over the \<open>Todo\<close> rules: the first rule that returns decides;
  \<open>has_context_file\<close> is \<open>context_hints and context_hints.get('has_context_file')\<close>.
\<close>

fun todo_rule_result :: "bool \<Rightarrow> (string \<times> string) list \<Rightarrow> string option" where
  "todo_rule_result has_context_file [] = None"
| "todo_rule_result has_context_file ((condition, result) # rules) =
     (if condition = ''story_context_file_exists''
      then (if has_context_file then Some result
            else todo_rule_result has_context_file rules)
      else if condition = ''default'' then Some result
      else todo_rule_result has_context_file rules)"

definition linear_to_bmad :: "mapper_config \<Rightarrow> string \<Rightarrow> string \<Rightarrow> bool \<Rightarrow> py_error + string" where
  "linear_to_bmad cfg linear_state content_type has_context_file =
     (if linear_state = [] then Inr ''backlog''
      else case map_of (linear_to_bmad_table cfg content_type) linear_state of
             None \<Rightarrow> if strict_mode cfg
                     then Inl (StateMappingError (''Unknown Linear state: '' @ linear_state))
                     else Inr ''backlog''
           | Some bmad_state \<Rightarrow>
               if linear_state = ''Todo'' \<and> content_type = ''story''
               then (case todo_rule_result has_context_file (todo_to_bmad_logic cfg) of
                       Some result \<Rightarrow> Inr result
                     | None \<Rightarrow> Inr bmad_state)
               else Inr bmad_state)"

record StateConflict =
  conflict_id :: string
  conflict_content_key :: string
  conflict_type :: string
  conflict_bmad_state :: string
  conflict_bmad_updated :: string
  conflict_linear_state :: string
  conflict_linear_updated :: string
  detected_at :: string

text \<open>
  \<open>detect_conflict\<close>. \<open>now_stamp\<close> and \<open>now_iso\<close> are the two clock readings
  \<open>datetime.now().strftime('%Y%m%d%H%M%S')\<close> and \<open>datetime.now().isoformat()\<close>.
  The three timestamps are parsed before the first comparison, and the second
  comparison is made only when the first one holds (\<open>and\<close>).
\<close>

definition detect_conflict ::
  "mapper_config \<Rightarrow> (string \<Rightarrow> datetime option) \<Rightarrow> string \<Rightarrow> string \<Rightarrow>
   string \<Rightarrow> string \<Rightarrow> string \<Rightarrow> string \<Rightarrow> string \<Rightarrow> string option \<Rightarrow>
   py_error + StateConflict option" where
  "detect_conflict cfg fromisoformat now_stamp now_iso
       content_key bmad_state bmad_updated linear_state linear_updated last_sync =
     (case linear_to_bmad cfg linear_state ''story'' False of
        Inl e \<Rightarrow> Inl e
      | Inr linear_as_bmad \<Rightarrow>
          if bmad_state = linear_as_bmad then Inr None
          else if truthy last_sync then
            (case parse_timestamp fromisoformat bmad_updated of
               Inl e \<Rightarrow> Inl e
             | Inr bmad_time \<Rightarrow>
            (case parse_timestamp fromisoformat linear_updated of
               Inl e \<Rightarrow> Inl e
             | Inr linear_time \<Rightarrow>
            (case parse_timestamp fromisoformat (the last_sync) of
               Inl e \<Rightarrow> Inl e
             | Inr sync_time \<Rightarrow>
            (case datetime_gt bmad_time sync_time of
               Inl e \<Rightarrow> Inl e
             | Inr False \<Rightarrow> Inr None
             | Inr True \<Rightarrow>
            (case datetime_gt linear_time sync_time of
               Inl e \<Rightarrow> Inl e
             | Inr False \<Rightarrow> Inr None
             | Inr True \<Rightarrow>
                 Inr (Some \<lparr>conflict_id = ''c-'' @ content_key @ ''-'' @ now_stamp,
                            conflict_content_key = content_key,
                            conflict_type = ''state_mismatch'',
                            conflict_bmad_state = bmad_state,
                            conflict_bmad_updated = bmad_updated,
                            conflict_linear_state = linear_state,
                            conflict_linear_updated = linear_updated,
                            detected_at = now_iso\<rparr>))))))
          else Inr None)"

text \<open>
  "\<open>a\<close> is strictly after \<open>b\<close>": both timestamps parse, Python can order them, and
  the first is the greater.
\<close>

definition strictly_after :: "(string \<Rightarrow> datetime option) \<Rightarrow> string \<Rightarrow> string \<Rightarrow> bool" where
  "strictly_after fromisoformat a b =
     (case (parse_timestamp fromisoformat a, parse_timestamp fromisoformat b) of
        (Inr x, Inr y) \<Rightarrow> datetime_gt x y = Inr True
      | _ \<Rightarrow> False)"

text \<open>"The local state differs from the mapped remote state": the mapping has a value.\<close>

definition differs_from_mapped :: "mapper_config \<Rightarrow> string \<Rightarrow> string \<Rightarrow> bool" where
  "differs_from_mapped cfg bmad_state linear_state =
     (case linear_to_bmad cfg linear_state ''story'' False of
        Inl e \<Rightarrow> False
      | Inr linear_as_bmad \<Rightarrow> bmad_state \<noteq> linear_as_bmad)"

definition is_conflict :: "py_error + StateConflict option \<Rightarrow> bool" where
  "is_conflict r = (case r of Inr (Some c) \<Rightarrow> True | _ \<Rightarrow> False)"

section \<open>\<^verbatim>\<open>three_way_merge.py\<close>\<close>

text \<open>\<open>sub in s\<close> on strings: \<open>sub\<close> occurs in \<open>s\<close> as a contiguous piece.\<close>

fun contains :: "string \<Rightarrow> string \<Rightarrow> bool" where
  "contains sub [] = (sub = [])"
| "contains sub (c # cs) = (take (length sub) (c # cs) = sub \<or> contains sub cs)"

record ThreeWayConflict =
  tw_conflict_id :: string
  tw_content_key :: string
  tw_bmad_state :: string
  tw_linear_state :: string
  ancestor_state :: "string option"
  tw_bmad_updated :: string
  tw_linear_updated :: string
  ancestor_updated :: "string option"

text \<open>
  \<open>_recommend_three_way_resolution\<close> returns the recommendation text and the
  confidence. \<open>not conflict.ancestor_state\<close> holds for \<open>None\<close> and for the empty
  string. The spec's local side is BMAD, its remote side Linear.
\<close>

definition recommend_three_way_resolution ::
  "(string \<Rightarrow> datetime option) \<Rightarrow> ThreeWayConflict \<Rightarrow> py_error + (string \<times> real)" where
  "recommend_three_way_resolution fromisoformat conflict =
     (if \<not> truthy (ancestor_state conflict)
      then Inr (''intelligent-merge (no ancestor available)'', 0.5)
      else if Some (tw_bmad_state conflict) = ancestor_state conflict
      then Inr (''keep-linear (BMAD unchanged since ancestor)'', 0.9)
      else if Some (tw_linear_state conflict) = ancestor_state conflict
      then Inr (''keep-bmad (Linear unchanged since ancestor)'', 0.9)
      else
        (case parse_timestamp fromisoformat (tw_bmad_updated conflict) of
           Inl e \<Rightarrow> Inl e
         | Inr bmad_time \<Rightarrow>
        (case parse_timestamp fromisoformat (tw_linear_updated conflict) of
           Inl e \<Rightarrow> Inl e
         | Inr linear_time \<Rightarrow>
        (case datetime_gt bmad_time linear_time of
           Inl e \<Rightarrow> Inl e
         | Inr True \<Rightarrow> Inr (''keep-bmad (more recent changes)'', 0.7)
         | Inr False \<Rightarrow> Inr (''keep-linear (more recent changes)'', 0.7)))))"

text \<open>The dictionary that \<open>perform_three_way_merge\<close> returns.\<close>

record merge_result =
  merged_state :: string
  merged_source :: string
  merged_updated :: "string option"
  merge_type :: string
  resolution :: string
  merge_confidence :: "real option"

definition use_bmad :: "ThreeWayConflict \<Rightarrow> string \<Rightarrow> real option \<Rightarrow> merge_result" where
  "use_bmad conflict res conf =
     \<lparr>merged_state = tw_bmad_state conflict, merged_source = ''bmad'',
      merged_updated = Some (tw_bmad_updated conflict), merge_type = ''three-way'',
      resolution = res, merge_confidence = conf\<rparr>"

definition use_linear :: "ThreeWayConflict \<Rightarrow> string \<Rightarrow> real option \<Rightarrow> merge_result" where
  "use_linear conflict res conf =
     \<lparr>merged_state = tw_linear_state conflict, merged_source = ''linear'',
      merged_updated = Some (tw_linear_updated conflict), merge_type = ''three-way'',
      resolution = res, merge_confidence = conf\<rparr>"

definition perform_three_way_merge ::
  "(string \<Rightarrow> datetime option) \<Rightarrow> ThreeWayConflict \<Rightarrow> string \<Rightarrow> py_error + merge_result" where
  "perform_three_way_merge fromisoformat conflict strategy =
     (if strategy = ''keep-bmad'' then Inr (use_bmad conflict ''manual-bmad'' None)
      else if strategy = ''keep-linear'' then Inr (use_linear conflict ''manual-linear'' None)
      else if strategy = ''ancestor'' \<and> truthy (ancestor_state conflict)
      then Inr \<lparr>merged_state = the (ancestor_state conflict), merged_source = ''ancestor'',
                merged_updated = ancestor_updated conflict, merge_type = ''three-way'',
                resolution = ''revert-to-ancestor'', merge_confidence = None\<rparr>
      else
        (case recommend_three_way_resolution fromisoformat conflict of
           Inl e \<Rightarrow> Inl e
         | Inr (recommendation, confidence) \<Rightarrow>
             if contains ''keep-bmad'' recommendation
             then Inr (use_bmad conflict ''auto'' (Some confidence))
             else if contains ''keep-linear'' recommendation
             then Inr (use_linear conflict ''auto'' (Some confidence))
             else
               (case parse_timestamp fromisoformat (tw_bmad_updated conflict) of
                  Inl e \<Rightarrow> Inl e
                | Inr bmad_time \<Rightarrow>
               (case parse_timestamp fromisoformat (tw_linear_updated conflict) of
                  Inl e \<Rightarrow> Inl e
                | Inr linear_time \<Rightarrow>
               (case datetime_gt bmad_time linear_time of
                  Inl e \<Rightarrow> Inl e
                | Inr True \<Rightarrow> Inr (use_bmad conflict ''auto'' (Some confidence))
                | Inr False \<Rightarrow> Inr (use_linear conflict ''auto'' (Some confidence)))))))"

section \<open>\<^verbatim>\<open>linctl_wrapper.py\<close>\<close>

text \<open>
  \<open>str.strip()\<close> and \<open>str.lower()\<close> on the Latin-1 range: the white space
  characters are TAB, LF, VT, FF, CR, FS, GS, RS, US, SPACE, NEL and NBSP; the letters
  with a lower-case form are \<open>A\<close> to \<open>Z\<close> and the accented capitals.
\<close>

definition py_isspace :: "char \<Rightarrow> bool" where
  "py_isspace c =
     (let n = (of_char c :: nat)
      in (9 \<le> n \<and> n \<le> 13) \<or> (28 \<le> n \<and> n \<le> 32) \<or> n = 133 \<or> n = 160)"

definition strip :: "string \<Rightarrow> string" where
  "strip s = rev (dropWhile py_isspace (rev (dropWhile py_isspace s)))"

definition py_lower_char :: "char \<Rightarrow> char" where
  "py_lower_char c =
     (let n = (of_char c :: nat)
      in if (65 \<le> n \<and> n \<le> 90) \<or> (192 \<le> n \<and> n \<le> 222 \<and> n \<noteq> 215)
         then char_of (n + 32) else c)"

definition lower :: "string \<Rightarrow> string" where
  "lower s = map py_lower_char s"

text \<open>
  What one \<open>subprocess.run\<close> of the tracker CLI does: it completes with a return
  code, \<open>stdout\<close> and \<open>stderr\<close>, it runs into the invocation timeout, or it raises
  something else (the binary is missing, say). The CLI is outside the program, so the
  outcome of the invocation made by attempt \<open>k\<close> is a parameter \<open>run k\<close>.
\<close>

datatype proc_outcome =
    Completed int string string
  | TimeoutExpired
  | OtherException string

text \<open>\<open>json.loads(stdout)\<close>, or \<open>{'output': stdout.strip()}\<close> when it is no JSON.\<close>

datatype 'j response = Json 'j | Output string

record LinctlWrapper =
  max_retries :: int
  retry_delay :: real

text \<open>
  What \<open>_exec\<close> did: its result or its \<open>LinctlError\<close>, the number of times it ran
  the command, and the arguments of its \<open>time.sleep\<close> calls in order.
\<close>

record 'j exec_trace =
  exec_result :: "py_error + 'j response"
  invocations :: nat
  sleeps :: "real list"

definition error_msg :: "string \<Rightarrow> string \<Rightarrow> string" where
  "error_msg stdout stderr = (if strip stderr \<noteq> [] then strip stderr else strip stdout)"

definition transient :: "string \<Rightarrow> bool" where
  "transient msg =
     list_ex (\<lambda>keyword. contains keyword (lower msg)) [''rate limit'', ''timeout'', ''network'']"

definition retried :: "'j exec_trace \<Rightarrow> real \<Rightarrow> 'j exec_trace" where
  "retried t delay = t\<lparr>invocations := Suc (invocations t), sleeps := delay # sleeps t\<rparr>"

definition finished :: "py_error + 'j response \<Rightarrow> 'j exec_trace" where
  "finished r = \<lparr>exec_result = r, invocations = 1, sleeps = []\<rparr>"

text \<open>
  The body of \<open>for attempt in range(retries + 1)\<close> over the attempts still to make.
  The \<open>LinctlError\<close> of a permanent failure is raised inside the \<open>try\<close> and caught by
  \<open>except Exception\<close>, which raises a \<open>LinctlError\<close> again; the statement after the
  loop is reached only when the range is empty.
\<close>

fun exec_loop ::
  "(nat \<Rightarrow> proc_outcome) \<Rightarrow> (string \<Rightarrow> 'j option) \<Rightarrow> int \<Rightarrow> real \<Rightarrow> nat list \<Rightarrow> 'j exec_trace" where
  "exec_loop run json_loads retries delay0 [] =
     \<lparr>exec_result = Inl (LinctlError ''linctl command failed after retries''),
      invocations = 0, sleeps = []\<rparr>"
| "exec_loop run json_loads retries delay0 (attempt # rest) =
     (case run attempt of
        Completed returncode stdout stderr \<Rightarrow>
          if returncode = 0 then
            finished (Inr (case json_loads stdout of
                             Some j \<Rightarrow> Json j
                           | None \<Rightarrow> Output (strip stdout)))
          else if transient (error_msg stdout stderr) \<and> int attempt < retries then
            retried (exec_loop run json_loads retries delay0 rest) (delay0 * 2 ^ attempt)
          else
            finished (Inl (LinctlError (''Unexpected error executing linctl: linctl command failed: ''
                                        @ error_msg stdout stderr)))
      | TimeoutExpired \<Rightarrow>
          if int attempt < retries then
            retried (exec_loop run json_loads retries delay0 rest) (delay0 * 2 ^ attempt)
          else finished (Inl (LinctlError ''linctl command timed out''))
      | OtherException e \<Rightarrow>
          finished (Inl (LinctlError (''Unexpected error executing linctl: '' @ e))))"

text \<open>\<open>_exec(args, retries)\<close>; \<open>retries=None\<close> stands for \<open>self.max_retries\<close>.\<close>

definition linctl_exec ::
  "LinctlWrapper \<Rightarrow> (nat \<Rightarrow> proc_outcome) \<Rightarrow> (string \<Rightarrow> 'j option) \<Rightarrow> int option \<Rightarrow> 'j exec_trace" where
  "linctl_exec w run json_loads retries_arg =
     (let retries = (case retries_arg of None \<Rightarrow> max_retries w | Some r \<Rightarrow> r)
      in exec_loop run json_loads retries (retry_delay w) [0 ..< nat (retries + 1)])"

text \<open>The outcomes after which \<open>_exec\<close> may try again.\<close>

definition retryable :: "proc_outcome \<Rightarrow> bool" where
  "retryable out =
     (case out of
        Completed returncode stdout stderr \<Rightarrow>
          returncode \<noteq> 0 \<and> transient (error_msg stdout stderr)
      | TimeoutExpired \<Rightarrow> True
      | OtherException e \<Rightarrow> False)"

text \<open>A non-zero exit whose output matches none of the three keywords.\<close>

definition permanent_failure :: "proc_outcome \<Rightarrow> bool" where
  "permanent_failure out =
     (case out of
        Completed returncode stdout stderr \<Rightarrow>
          returncode \<noteq> 0 \<and> \<not> transient (error_msg stdout stderr)
      | _ \<Rightarrow> False)"

section \<open>\<^verbatim>\<open>content_discovery.py\<close>: normalisation and hashing\<close>

text \<open>
  The line boundaries of \<open>str.splitlines()\<close> in the Latin-1 range: LF, VT, FF, CR, FS,
  GS, RS and NEL; CR followed by LF is one boundary.
\<close>

definition py_islinebreak :: "char \<Rightarrow> bool" where
  "py_islinebreak c =
     (let n = (of_char c :: nat)
      in (10 \<le> n \<and> n \<le> 13) \<or> (28 \<le> n \<and> n \<le> 30) \<or> n = 133)"

definition LF :: char where "LF = CHR 0x0A"

definition CR :: char where "CR = CHR 0x0D"

text \<open>
  \<open>s.splitlines()\<close>: the lines without their boundaries; a boundary at the very end
  starts no further line.
\<close>

function splitlines :: "string \<Rightarrow> string list" where
  "splitlines s =
     (if s = [] then []
      else
        let line = takeWhile (\<lambda>c. \<not> py_islinebreak c) s;
            rest = dropWhile (\<lambda>c. \<not> py_islinebreak c) s
        in case rest of
             [] \<Rightarrow> [line]
           | c # r \<Rightarrow>
               line # splitlines (if c = CR \<and> r \<noteq> [] \<and> hd r = LF then tl r else r))"
  by pat_completeness auto
termination
proof (relation "measure length")
  fix s :: string and line rest c r
  assume "s \<noteq> []" and "rest = dropWhile (\<lambda>c. \<not> py_islinebreak c) s" and "rest = c # r"
  then have "Suc (length r) \<le> length s"
    by (metis length_Cons length_dropWhile_le)
  then show "(if c = CR \<and> r \<noteq> [] \<and> hd r = LF then tl r else r, s) \<in> measure length"
    by (cases r) auto
qed simp

declare splitlines.simps [simp del]

text \<open>\<open>"\n".join(lines)\<close>.\<close>

fun join_lines :: "string list \<Rightarrow> string" where
  "join_lines [] = []"
| "join_lines [l] = l"
| "join_lines (l # m # ls) = l @ LF # join_lines (m # ls)"

definition normalize_content :: "string \<Rightarrow> string" where
  "normalize_content content =
     (let normalized = str_replace [CR] [LF] (str_replace [CR, LF] [LF] content)
      in strip (join_lines (map strip (splitlines normalized))))"

text \<open>
  \<open>compute_hash\<close>: \<open>hashlib.sha256(normalized.encode("utf-8")).hexdigest()\<close>, the
  encoder and the digest being parameters.
\<close>

definition compute_hash :: "(string \<Rightarrow> 'b) \<Rightarrow> ('b \<Rightarrow> string) \<Rightarrow> string \<Rightarrow> string" where
  "compute_hash encode_utf8 sha256_hexdigest content =
     sha256_hexdigest (encode_utf8 (normalize_content content))"

text \<open>A line without boundaries, and a line with no white space at either end.\<close>

definition no_breaks :: "string \<Rightarrow> bool" where
  "no_breaks l \<longleftrightarrow> (\<forall>c \<in> set l. \<not> py_islinebreak c)"

definition stripped :: "string \<Rightarrow> bool" where
  "stripped l \<longleftrightarrow> l = [] \<or> (\<not> py_isspace (hd l) \<and> \<not> py_isspace (last l))"

definition trim_empty :: "string list \<Rightarrow> string list" where
  "trim_empty ls = rev (dropWhile (\<lambda>l. l = []) (rev (dropWhile (\<lambda>l. l = []) ls)))"

section \<open>\<^verbatim>\<open>content_discovery.py\<close>: the index and its diff\<close>

text \<open>
  An entry of the index: \<open>file\<close> and \<open>hash\<close> for every entry, \<open>title\<close> when it
  could be parsed, and for a story its \<open>status\<close>, \<open>epic\<close> and \<open>story\<close> number.
  An index read back from \<open>content_index.json\<close> may lack any of them, so each is what
  \<open>.get\<close> returns.
\<close>

record index_entry =
  entry_file :: "string option"
  entry_hash :: "string option"
  entry_title :: "string option"
  entry_status :: "string option"
  entry_epic :: "int option"
  entry_story :: "int option"

record content_index =
  last_scan :: "string option"
  epics :: "(string, index_entry) dict"
  stories :: "(string, index_entry) dict"

record changes =
  added :: "string list"
  modified :: "string list"
  deleted :: "string list"

text \<open>\<open>d.get(key, {}).get("hash")\<close> and \<open>d[key].get("hash")\<close> for a key of \<open>d\<close>.\<close>

definition hash_of :: "(string, index_entry) dict \<Rightarrow> string \<Rightarrow> string option" where
  "hash_of d key = Option.bind (map_of d key) entry_hash"

text \<open>
  \<open>discover_all(previous_index)\<close>. \<open>current\<close> is what \<open>_build_current_index()\<close>
  finds on disk (the scan and the parsing of the markdown files are not modelled). The
  result is \<open>{**current, "changes": changes}\<close>. Python walks the key sets in an
  unspecified order; the lists here follow the order of the dictionaries.
\<close>

definition discover_all :: "content_index \<Rightarrow> content_index option \<Rightarrow> content_index \<times> changes" where
  "discover_all current previous_index =
     (case previous_index of
        None \<Rightarrow> (current, \<lparr>added = [], modified = [], deleted = []\<rparr>)
      | Some previous \<Rightarrow>
          let prev_stories = stories previous;
              curr_stories = stories current
          in (current,
              \<lparr>added = filter (\<lambda>key. key \<notin> set (map fst prev_stories)) (map fst curr_stories),
               modified = filter (\<lambda>key. key \<in> set (map fst prev_stories) \<and>
                                         hash_of curr_stories key \<noteq> hash_of prev_stories key)
                            (map fst curr_stories),
               deleted = filter (\<lambda>key. key \<notin> set (map fst curr_stories)) (map fst prev_stories)\<rparr>))"

section \<open>\<^verbatim>\<open>hierarchy.py\<close> and \<^verbatim>\<open>state_manager.py\<close>: the state store\<close>

text \<open>The JSON value of \<open>hierarchy.json\<close>.\<close>

record hierarchy =
  relationships :: "(string, string) dict"
  children :: "(string, string list) dict"
  linear_epics :: "(string, string) dict"
  linear_stories :: "(string, string) dict"

definition create_empty_hierarchy :: hierarchy where
  "create_empty_hierarchy =
     \<lparr>relationships = [], children = [], linear_epics = [], linear_stories = []\<rparr>"

definition register_epic :: "string \<Rightarrow> string \<Rightarrow> hierarchy \<Rightarrow> hierarchy" where
  "register_epic epic_key linear_id h =
     h\<lparr>linear_epics := dict_set epic_key linear_id (linear_epics h),
       children := (if epic_key \<in> set (map fst (children h)) then children h
                    else dict_set epic_key [] (children h))\<rparr>"

definition register_story :: "string \<Rightarrow> string \<Rightarrow> string option \<Rightarrow> hierarchy \<Rightarrow> hierarchy" where
  "register_story story_key linear_id parent_epic_key h =
     (let h1 = h\<lparr>linear_stories := dict_set story_key linear_id (linear_stories h)\<rparr>
      in if truthy parent_epic_key then
           let parent = the parent_epic_key;
               kids = (case map_of (children h1) parent of None \<Rightarrow> [] | Some ks \<Rightarrow> ks)
           in h1\<lparr>relationships := dict_set story_key parent (relationships h1),
                 children := dict_set parent
                               (if story_key \<in> set kids then kids else kids @ [story_key])
                               (children h1)\<rparr>
         else h1)"

definition get_linear_id :: "hierarchy \<Rightarrow> string \<Rightarrow> string option" where
  "get_linear_id h bmad_key =
     (if truthy (map_of (linear_epics h) bmad_key) then map_of (linear_epics h) bmad_key
      else map_of (linear_stories h) bmad_key)"

text \<open>
  The JSON value of \<open>number_registry.json\<close> as \<open>StateManager\<close> and
  \<open>RenumberEngine\<close> use it: \<open>stories\<close> maps a story key to its
  \<open>linear_issue_key\<close>, a legacy registry maps keys to issue ids at the top level, and
  \<open>renumbering_history\<close> lists old key, new key, issue id, timestamp and reason.
\<close>

record number_registry =
  registry_stories :: "(string, string) dict"
  registry_flat :: "(string, string) dict"
  renumbering_history :: "(string \<times> string \<times> string \<times> string \<times> string) list"

record sync_state =
  state_last_sync :: "string option"
  sync_operations :: "string list"
  sync_errors :: "string list"

text \<open>An operation of the plan (\<open>SyncOperation\<close>).\<close>

record SyncOperation =
  op_action :: string
  op_content_key :: string
  op_content_type :: string
  op_reason :: string
  op_title :: "string option"
  op_previous_hash :: "string option"
  op_current_hash :: "string option"
  op_issue_id :: "string option"
  op_state :: "string option"
  op_project :: "string option"
  op_team :: "string option"
  op_labels :: "string list option"

record summary =
  n_total :: nat
  n_create :: nat
  n_update :: nat

record sync_report =
  report_timestamp :: string
  report_summary :: summary
  report_operations :: "SyncOperation list"

text \<open>
  The files of the state directory. A file is \<open>None\<close> when it does not exist and
  otherwise the JSON value it holds; copying a file copies the value.
  \<open>pre_sync_backups\<close> are the directories \<open>backups/pre-sync-<stamp>\<close>, each with
  its copies of the three state files.
\<close>

record snapshot =
  saved_content_index :: "content_index option"
  saved_sync_state :: "sync_state option"
  saved_number_registry :: "number_registry option"

record store =
  content_index_file :: "content_index option"
  sync_state_file :: "sync_state option"
  number_registry_file :: "number_registry option"
  hierarchy_file :: "hierarchy option"
  sync_report_file :: "sync_report option"
  pre_sync_backups :: "(string, snapshot) dict"

text \<open>\<open>HierarchyManager._load_hierarchy\<close>: a missing file is an empty hierarchy.\<close>

definition load_hierarchy :: "store \<Rightarrow> hierarchy" where
  "load_hierarchy st =
     (case hierarchy_file st of None \<Rightarrow> create_empty_hierarchy | Some h \<Rightarrow> h)"

text \<open>
  \<open>StateManager.get_issue_id\<close>: the hierarchy first, then the \<open>stories\<close> of the
  number registry, then the legacy flat mapping. A missing registry raises
  \<open>StateError\<close> inside the \<open>try\<close>, which ends in \<open>None\<close>.
\<close>

definition get_issue_id :: "store \<Rightarrow> string \<Rightarrow> string option" where
  "get_issue_id st story_key =
     (if truthy (get_linear_id (load_hierarchy st) story_key)
      then get_linear_id (load_hierarchy st) story_key
      else case number_registry_file st of
             None \<Rightarrow> None
           | Some registry \<Rightarrow>
               if truthy (map_of (registry_stories registry) story_key)
               then map_of (registry_stories registry) story_key
               else map_of (registry_flat registry) story_key)"

section \<open>\<^verbatim>\<open>sync_engine.py\<close>: planning\<close>

record SyncEngine =
  dry_run :: bool
  create_only :: bool
  update_only :: bool
  engine_team :: "string option"
  engine_project :: "string option"
  mapper :: mapper_config
  team_prefix :: "string option"

definition determine_action :: "string \<Rightarrow> string \<Rightarrow> string" where
  "determine_action key why = (if why = ''added'' then ''create'' else ''update'')"

definition bmad_to_linear_state :: "mapper_config \<Rightarrow> string option \<Rightarrow> string \<Rightarrow> string option" where
  "bmad_to_linear_state cfg content_state content_type =
     (if \<not> truthy content_state then None
      else case bmad_to_linear cfg (the content_state) content_type of
             Inl e \<Rightarrow> None
           | Inr linear_state \<Rightarrow> Some linear_state)"

definition startswith :: "string \<Rightarrow> string \<Rightarrow> bool" where
  "startswith s pre = (take (length pre) s = pre)"

text \<open>\<open>_aggregate_epic_state(epic_key, sprint_status)\<close>; the warning it logs is left out.\<close>

definition is_done_like :: "string \<Rightarrow> bool" where
  "is_done_like s = (s \<in> set [''done'', ''wont-do'', ''wontdo'', ''won't-do''])"

definition aggregate_epic_state :: "string \<Rightarrow> (string, string) dict \<Rightarrow> string option" where
  "aggregate_epic_state epic_key sprint_status =
     (if sprint_status = [] then None
      else if \<not> startswith epic_key ''epic-'' then None
      else
        let epic_num = str_replace ''epic-'' [] epic_key;
            story_statuses = filter (\<lambda>(k, v). startswith k (epic_num @ ''-'') \<and>
                                             count_list k (CHR ''-'') \<ge> 2) sprint_status;
            retro_status = (case map_of sprint_status (''epic-'' @ epic_num @ ''-retrospective'') of
                              None \<Rightarrow> [] | Some v \<Rightarrow> v);
            values_norm = map (\<lambda>(k, v). lower (strip v)) story_statuses;
            all_done = (values_norm \<noteq> [] \<and> list_all is_done_like values_norm);
            all_ready = (values_norm \<noteq> [] \<and> list_all (\<lambda>s. s = ''ready-for-dev'') values_norm);
            any_ip = list_ex (\<lambda>s. s = ''in-progress'') values_norm;
            any_review = list_ex (\<lambda>s. s = ''review'') values_norm;
            retro_completed = (lower (strip retro_status) = ''completed'');
            any_done_like = list_ex is_done_like values_norm
        in if retro_completed then Some ''done''
           else if all_ready then Some ''ready-for-dev''
           else if all_done \<and> \<not> retro_completed then Some ''review''
           else if any_ip \<or> any_review \<or> (any_done_like \<and> \<not> all_done) then Some ''in-progress''
           else if values_norm \<noteq> [] \<and> \<not> all_done \<and> \<not> all_ready then Some ''in-progress''
           else Some ''backlog'')"

text \<open>
  The two loops of \<open>build_operations\<close>: one dictionary item gives one operation, or none
  when the entry is unchanged or a flag filters it out.
\<close>

definition change_reason :: "(string, index_entry) dict \<Rightarrow> string \<Rightarrow> index_entry \<Rightarrow> string option" where
  "change_reason prev key cur_meta =
     (case map_of prev key of
        None \<Rightarrow> Some ''added''
      | Some prev_meta \<Rightarrow>
          if entry_hash prev_meta \<noteq> entry_hash cur_meta then Some ''modified'' else None)"

definition story_labels :: "index_entry \<Rightarrow> string list option" where
  "story_labels cur_meta =
     (let st = lower (strip (case entry_status cur_meta of None \<Rightarrow> [] | Some s \<Rightarrow> s))
      in if st = ''ready-for-dev'' then Some [''Contexted'']
         else if st = ''drafted'' then Some [''No Context'']
         else None)"

definition story_operation ::
  "SyncEngine \<Rightarrow> store \<Rightarrow> (string, index_entry) dict \<Rightarrow> string \<times> index_entry \<Rightarrow> SyncOperation option" where
  "story_operation eng st prev_stories item =
     (case item of (key, cur_meta) \<Rightarrow>
      (case change_reason prev_stories key cur_meta of
         None \<Rightarrow> None
       | Some why \<Rightarrow>
           let linear_id = get_issue_id st key
           in if create_only eng \<and> truthy linear_id then None
              else if update_only eng \<and> \<not> truthy linear_id then None
              else Some \<lparr>op_action = determine_action key why,
                         op_content_key = key,
                         op_content_type = ''story'',
                         op_reason = why,
                         op_title = entry_title cur_meta,
                         op_previous_hash = hash_of prev_stories key,
                         op_current_hash = entry_hash cur_meta,
                         op_issue_id = linear_id,
                         op_state = bmad_to_linear_state (mapper eng) (entry_status cur_meta) ''story'',
                         op_project = engine_project eng,
                         op_team = engine_team eng,
                         op_labels = story_labels cur_meta\<rparr>))"

definition epic_operation ::
  "SyncEngine \<Rightarrow> store \<Rightarrow> (string, string) dict \<Rightarrow> (string, index_entry) dict \<Rightarrow>
   string \<times> index_entry \<Rightarrow> SyncOperation option" where
  "epic_operation eng st sprint_status_map prev_epics item =
     (case item of (key, cur_meta) \<Rightarrow>
      (case change_reason prev_epics key cur_meta of
         None \<Rightarrow> None
       | Some why \<Rightarrow>
           let linear_id = get_issue_id st key
           in if create_only eng \<and> truthy linear_id then None
              else if update_only eng \<and> \<not> truthy linear_id then None
              else
                let epic_bmad_state = aggregate_epic_state key sprint_status_map;
                    e_state = lower (strip (case map_of sprint_status_map key of
                                              None \<Rightarrow> [] | Some s \<Rightarrow> s))
                in Some \<lparr>op_action = determine_action key why,
                          op_content_key = key,
                          op_content_type = ''epic'',
                          op_reason = why,
                          op_title = entry_title cur_meta,
                          op_previous_hash = hash_of prev_epics key,
                          op_current_hash = entry_hash cur_meta,
                          op_issue_id = linear_id,
                          op_state = bmad_to_linear_state (mapper eng) epic_bmad_state ''epic'',
                          op_project = engine_project eng,
                          op_team = engine_team eng,
                          op_labels = Some (if e_state = ''contexted'' then [''Contexted'']
                                         else [''No Context''])\<rparr>))"

text \<open>
  \<open>build_operations(previous_index, new_index)\<close>. \<open>sprint_status_map\<close> is the
  \<open>development_status\<close> mapping of \<open>sprint-status.yaml\<close>, empty when the file is
  missing or unreadable.
\<close>

definition build_operations ::
  "SyncEngine \<Rightarrow> store \<Rightarrow> (string, string) dict \<Rightarrow> content_index option \<Rightarrow> content_index
   \<Rightarrow> SyncOperation list" where
  "build_operations eng st sprint_status_map previous_index new_index =
     (let prev_stories = (case previous_index of None \<Rightarrow> [] | Some p \<Rightarrow> stories p);
          prev_epics = (case previous_index of None \<Rightarrow> [] | Some p \<Rightarrow> epics p)
      in List.map_filter (story_operation eng st prev_stories) (stories new_index)
         @ List.map_filter (epic_operation eng st sprint_status_map prev_epics) (epics new_index))"

definition summarize :: "SyncOperation list \<Rightarrow> summary" where
  "summarize operations =
     \<lparr>n_total = length operations,
      n_create = length (filter (\<lambda>x. op_action x = ''create'') operations),
      n_update = length (filter (\<lambda>x. op_action x = ''update'') operations)\<rparr>"

text \<open>\<open>write_report\<close> replaces \<open>sync_report.json\<close> and nothing else.\<close>

definition write_report :: "string \<Rightarrow> SyncOperation list \<Rightarrow> store \<Rightarrow> store" where
  "write_report now operations st =
     st\<lparr>sync_report_file :=
          Some \<lparr>report_timestamp = now, report_summary = summarize operations,
                report_operations = operations\<rparr>\<rparr>"

record plan =
  plan_operations :: "SyncOperation list"
  plan_summary :: summary
  plan_previous_index :: "content_index option"
  plan_current_index :: "content_index \<times> changes"

text \<open>
  \<open>sync(force_refresh)\<close>: the previous index is read from \<open>content_index.json\<close>
  when the file exists and \<open>force_refresh\<close> is off. \<open>scan\<close> is the index that
  discovery builds from the markdown files, \<open>now\<close> the clock reading of the report.
\<close>

definition sync ::
  "SyncEngine \<Rightarrow> (string, string) dict \<Rightarrow> content_index \<Rightarrow> string \<Rightarrow> bool \<Rightarrow> store \<Rightarrow> plan \<times> store" where
  "sync eng sprint_status_map scan now force_refresh st =
     (let previous_index = (if \<not> force_refresh then content_index_file st else None);
          new_index = discover_all scan previous_index;
          operations = build_operations eng st sprint_status_map previous_index (fst new_index)
      in (\<lparr>plan_operations = operations,
           plan_summary = summarize operations,
           plan_previous_index = previous_index,
           plan_current_index = new_index\<rparr>,
          write_report now operations st))"

section \<open>\<^verbatim>\<open>validator.py\<close>: payload validation\<close>

text \<open>
  The two payload checks return the list of their error messages. \<open>state\<close> is
  \<open>data.get('state')\<close>; the create payload of \<open>apply\<close> never has one.
\<close>

definition validate_issue_create_payload ::
  "string \<Rightarrow> string \<Rightarrow> string option \<Rightarrow> string list \<Rightarrow> string list" where
  "validate_issue_create_payload title_str team_str state_arg allowed_states =
     (if strip title_str = [] then [''missing or empty: title''] else [])
     @ (if strip team_str = [] then [''missing or empty: team''] else [])
     @ (case state_arg of
          None \<Rightarrow> []
        | Some s \<Rightarrow> if s \<notin> set allowed_states then [''invalid state: '' @ s] else [])"

definition validate_issue_update_payload :: "string option \<Rightarrow> string list \<Rightarrow> string list" where
  "validate_issue_update_payload state_arg allowed_states =
     (case state_arg of
        None \<Rightarrow> []
      | Some s \<Rightarrow> if s \<notin> set allowed_states then [''invalid state: '' @ s] else [])"

section \<open>\<^verbatim>\<open>state_manager.py\<close>: registering an issue\<close>

text \<open>
  \<open>StateManager.__init__\<close> ends with \<open>_initialize_files\<close>, which creates each of
  the three state files that does not exist. \<open>HierarchyManager()\<close> and
  \<open>RenumberEngine(...)\<close> both construct a \<open>StateManager\<close>; the engine is taken to
  run on the default state directory, where the three managers meet.
\<close>

definition initialize_files :: "store \<Rightarrow> store" where
  "initialize_files st =
     st\<lparr>content_index_file :=
          (case content_index_file st of
             None \<Rightarrow> Some \<lparr>last_scan = None, epics = [], stories = []\<rparr>
           | Some x \<Rightarrow> Some x),
        sync_state_file :=
          (case sync_state_file st of
             None \<Rightarrow> Some \<lparr>state_last_sync = None, sync_operations = [], sync_errors = []\<rparr>
           | Some x \<Rightarrow> Some x),
        number_registry_file :=
          (case number_registry_file st of
             None \<Rightarrow> Some \<lparr>registry_stories = [], registry_flat = [], renumbering_history = []\<rparr>
           | Some x \<Rightarrow> Some x)\<rparr>"

text \<open>\<open>key.split("-", 2)\<close>: at most \<open>n\<close> cuts at a hyphen.\<close>

fun split_hyphen :: "nat \<Rightarrow> string \<Rightarrow> string list" where
  "split_hyphen 0 s = [s]"
| "split_hyphen (Suc n) s =
     (case dropWhile (\<lambda>c. c \<noteq> CHR ''-'') s of
        [] \<Rightarrow> [s]
      | c # rest \<Rightarrow> takeWhile (\<lambda>c. c \<noteq> CHR ''-'') s # split_hyphen n rest)"

text \<open>
  The parent epic that \<open>register_issue\<close> infers for a story key: \<open>epic-<n>\<close> when
  the key has a hyphen and starts with decimal digits, \<open>n\<close> being
  \<open>str(int(parts[0]))\<close>, the digits without leading zeros.
\<close>

definition is_decimal :: "string \<Rightarrow> bool" where
  "is_decimal s \<longleftrightarrow> s \<noteq> [] \<and> list_all (\<lambda>c. c \<in> set ''0123456789'') s"

definition canonical_decimal :: "string \<Rightarrow> string" where
  "canonical_decimal s =
     (case dropWhile (\<lambda>c. c = CHR ''0'') s of [] \<Rightarrow> ''0'' | c # cs \<Rightarrow> c # cs)"

definition infer_parent_epic :: "string \<Rightarrow> string option" where
  "infer_parent_epic story_key =
     (let parts = split_hyphen 2 story_key
      in if length parts \<ge> 2 \<and> is_decimal (hd parts)
         then Some (''epic-'' @ canonical_decimal (hd parts)) else None)"

text \<open>
  \<open>register_issue(story_key, issue_id)\<close>: the hierarchy is loaded, updated and
  saved; for a key that is not an epic's the entry of the number registry is set too.
\<close>

definition register_issue :: "string \<Rightarrow> string \<Rightarrow> store \<Rightarrow> store" where
  "register_issue story_key issue st =
     (let st1 = initialize_files st;
          h = load_hierarchy st1;
          h' = (if startswith story_key ''epic-'' then register_epic story_key issue h
                else register_story story_key issue (infer_parent_epic story_key) h);
          st2 = st1\<lparr>hierarchy_file := Some h'\<rparr>
      in if startswith story_key ''epic-'' then st2
         else case number_registry_file st2 of
                None \<Rightarrow> st2
              | Some registry \<Rightarrow>
                  st2\<lparr>number_registry_file :=
                        Some (registry\<lparr>registry_stories :=
                                dict_set story_key issue (registry_stories registry)\<rparr>)\<rparr>)"

section \<open>\<^verbatim>\<open>renumber_engine.py\<close>: recording a renumbering\<close>

text \<open>
  \<open>record_mapping\<close> for a mapping with old key, new key, issue id and timestamp (the
  reason is the default \<open>structural_change\<close>).
\<close>

definition record_mapping :: "string \<Rightarrow> string \<Rightarrow> string \<Rightarrow> string \<Rightarrow> store \<Rightarrow> store" where
  "record_mapping old_key new_key issue timestamp st =
     (if issue = [] then st
      else
        let st1 = register_issue new_key issue st
        in case number_registry_file st1 of
             None \<Rightarrow> st1
           | Some registry \<Rightarrow>
               st1\<lparr>number_registry_file :=
                     Some (registry\<lparr>renumbering_history :=
                             renumbering_history registry
                             @ [(old_key, new_key, issue, timestamp, ''structural_change'')]\<rparr>)\<rparr>)"

section \<open>\<^verbatim>\<open>sync_engine.py\<close>: application\<close>

text \<open>
  The tracker is reached through the wrapper's \<open>issue_create\<close> and \<open>issue_update\<close>.
  Both are parameters over a tracker state \<open>'t\<close>: a call returns the wrapper's result
  or the exception it raised, and the next tracker state. Of the created issue the
  engine reads the human key (\<open>key\<close>, \<open>identifier\<close>, also under \<open>issue\<close>) and the
  UUID (\<open>id\<close>, \<open>uuid\<close>).
\<close>

record create_payload =
  payload_title :: string
  payload_team :: string
  payload_project :: string
  payload_labels :: "string list option"

record update_payload =
  payload_state :: "string option"
  payload_add_labels :: "string list option"
  payload_remove_labels :: "string list option"

record create_result =
  result_key :: "string option"
  result_uuid :: "string option"

record 't wrapper =
  issue_create :: "create_payload \<Rightarrow> 't \<Rightarrow> (py_error + create_result) \<times> 't"
  issue_update :: "string \<Rightarrow> update_payload \<Rightarrow> 't \<Rightarrow> (py_error + unit) \<times> 't"

text \<open>
  What \<open>apply\<close> works on: the state directory, the names of the markdown files under
  \<open>docs_bmad\<close> (their text, which renumbering edits, is not state and is left out),
  and the tracker.
\<close>

record 't world =
  world_store :: store
  world_docs :: "string list"
  world_tracker :: 't

datatype outcome = Succeeded string | Failed string | Skipped string

definition allowed_states :: "SyncEngine \<Rightarrow> string \<Rightarrow> string list" where
  "allowed_states eng ctype =
     map snd (if ctype = ''story'' then story_bmad_to_linear (mapper eng)
              else epic_bmad_to_linear (mapper eng))"

definition rename_file :: "string \<Rightarrow> string \<Rightarrow> string list \<Rightarrow> string list" where
  "rename_file old_file new_file files =
     new_file # filter (\<lambda>f. f \<noteq> old_file \<and> f \<noteq> new_file) files"

text \<open>
  \<open>_renumber_after_create(op, linear_id)\<close>. Everything runs inside one \<open>try\<close> whose
  handler only logs, so a failing \<open>int(...)\<close> ends the renumbering where it stands:
  after the rename and the registration of the new key, before the mapping is
  recorded. \<open>int_ok s\<close> says that \<open>int(s)\<close> returns.
\<close>

definition renumber_after_create ::
  "SyncEngine \<Rightarrow> (string \<Rightarrow> bool) \<Rightarrow> string \<Rightarrow> SyncOperation \<Rightarrow> string \<Rightarrow> 't world \<Rightarrow> 't world" where
  "renumber_after_create eng int_ok now_iso x linear_id w =
     (let prefix = (if truthy (team_prefix eng) then the (team_prefix eng) else ''RAE'');
          numeric_id = str_replace (prefix @ ''-'') [] linear_id
      in if op_content_type x = ''epic'' then
           let old_key = op_content_key x;
               new_key = ''epic-'' @ numeric_id;
               old_file = old_key @ ''-context.md'';
               new_file = new_key @ ''-context.md''
           in if old_file \<in> set (world_docs w) then
                let w1 = w\<lparr>world_docs := rename_file old_file new_file (world_docs w)\<rparr>;
                    w2 = w1\<lparr>world_store := register_issue new_key linear_id (world_store w1)\<rparr>
                in if int_ok (str_replace ''epic-'' [] old_key) \<and> int_ok numeric_id
                   then w2\<lparr>world_store :=
                             record_mapping old_key new_key linear_id now_iso
                               (initialize_files (world_store w2))\<rparr>
                   else w2
              else w
         else if op_content_type x = ''story'' then
           let parts = split_hyphen 2 (op_content_key x)
           in if length parts < 2 then w
              else
                let old_epic = parts ! 0;
                    old_story = parts ! 1;
                    story_name = (if length parts > 2 then parts ! 2 else []);
                    epic_linear_id = get_issue_id (world_store w) (''epic-'' @ old_epic);
                    w0 = w\<lparr>world_store := initialize_files (world_store w)\<rparr>;
                    epic_numeric = (if truthy epic_linear_id
                                    then str_replace (prefix @ ''-'') [] (the epic_linear_id)
                                    else old_epic);
                    new_key = epic_numeric @ ''-'' @ numeric_id
                              @ (if story_name \<noteq> [] then ''-'' @ story_name else []);
                    old_file = ''stories/'' @ op_content_key x @ ''.md'';
                    new_file = ''stories/'' @ new_key @ ''.md''
                in if old_file \<in> set (world_docs w0) then
                     let w1 = w0\<lparr>world_docs := rename_file old_file new_file (world_docs w0)\<rparr>;
                         w2 = w1\<lparr>world_store := register_issue new_key linear_id (world_store w1)\<rparr>
                     in if int_ok old_epic \<and> int_ok old_story \<and> int_ok epic_numeric \<and> int_ok numeric_id
                        then w2\<lparr>world_store :=
                                  record_mapping (op_content_key x) new_key linear_id now_iso
                                    (initialize_files (world_store w2))\<rparr>
                        else w2
                   else w0
         else w)"

text \<open>
  The state update that follows a create: with the key first and, if that did not
  work, with the UUID; both failures are swallowed.
\<close>

definition post_create_update ::
  "'t wrapper \<Rightarrow> string option \<Rightarrow> string option \<Rightarrow> string option \<Rightarrow> 't \<Rightarrow> 't" where
  "post_create_update api issue_key issue_uuid state_arg t =
     (let payload = \<lparr>payload_state = state_arg, payload_add_labels = None,
                      payload_remove_labels = None\<rparr>;
          first = (if truthy issue_key
                   then (case issue_update api (the issue_key) payload t of
                           (Inl e, t1) \<Rightarrow> (False, t1)
                         | (Inr u, t1) \<Rightarrow> (True, t1))
                   else (False, t))
      in if \<not> fst first \<and> truthy issue_uuid
         then snd (issue_update api (the issue_uuid) payload (snd first))
         else snd first)"

text \<open>
  The \<open>create\<close> branch of the loop body, in two parts. First what follows the
  tracker's answer: the issue is registered under the current key, the mapped state is
  sent, the files are renumbered.
\<close>

definition created_message :: "SyncOperation \<Rightarrow> string option \<Rightarrow> string" where
  "created_message x issue =
     ''created '' @ op_content_type x @ '' ''
     @ (case issue of None \<Rightarrow> ''None'' | Some i \<Rightarrow> i) @ '' for '' @ op_content_key x"

definition after_create ::
  "'t wrapper \<Rightarrow> SyncEngine \<Rightarrow> (string \<Rightarrow> bool) \<Rightarrow> string \<Rightarrow> SyncOperation \<Rightarrow> create_result
   \<Rightarrow> 't world \<Rightarrow> outcome \<times> 't world" where
  "after_create api eng int_ok now_iso x result w1 =
     (let issue_key = result_key result;
          issue_uuid = result_uuid result;
          issue = (if truthy issue_key then issue_key else issue_uuid)
      in if truthy issue then
           let w2 = w1\<lparr>world_store :=
                          register_issue (op_content_key x) (the issue) (world_store w1)\<rparr>
           in if (op_content_type x = ''story'' \<or> op_content_type x = ''epic'')
                 \<and> truthy (op_state x) then
                if validate_issue_update_payload (op_state x)
                     (allowed_states eng (op_content_type x)) \<noteq> [] then
                  (Failed (''error for '' @ op_content_key x @ '': invalid update payload''), w2)
                else
                  (Succeeded (created_message x issue),
                   renumber_after_create eng int_ok now_iso x (the issue)
                     (w2\<lparr>world_tracker :=
                           post_create_update api issue_key issue_uuid (op_state x)
                             (world_tracker w2)\<rparr>))
              else
                (Succeeded (created_message x issue),
                 renumber_after_create eng int_ok now_iso x (the issue) w2)
         else (Succeeded (created_message x issue), w1))"

text \<open>
  Then the branch itself. The title is prefixed with a marker of the content type (the
  emoji before \<open>EPIC:\<close> and \<open>STORY:\<close> is left out); \<open>project_id\<close> is
  \<open>self.project\<close>, set before the loop.
\<close>

definition create_title :: "SyncOperation \<Rightarrow> string" where
  "create_title x =
     (let name = (if truthy (op_title x) then the (op_title x) else op_content_key x)
      in if op_content_type x = ''epic'' then ''EPIC: '' @ name
         else if op_content_type x = ''story'' then ''STORY: '' @ name
         else name)"

definition apply_create ::
  "'t wrapper \<Rightarrow> SyncEngine \<Rightarrow> string \<Rightarrow> (string \<Rightarrow> bool) \<Rightarrow> string \<Rightarrow> SyncOperation \<Rightarrow> 't world
   \<Rightarrow> outcome \<times> 't world" where
  "apply_create api eng project_id int_ok now_iso x w =
     (let team_str = (if truthy (op_team x) then the (op_team x) else []);
          v_errors = validate_issue_create_payload (create_title x) team_str None
                       (allowed_states eng (op_content_type x))
      in if v_errors \<noteq> [] then
           (Failed (''error for '' @ op_content_key x @ '': invalid create payload''), w)
         else
           case issue_create api
                  \<lparr>payload_title = create_title x, payload_team = team_str,
                   payload_project = project_id,
                   payload_labels = (if op_labels x = None \<or> op_labels x = Some []
                                     then None else op_labels x)\<rparr>
                  (world_tracker w) of
             (Inl e, t1) \<Rightarrow>
               (Failed (''linctl error for '' @ op_content_key x), w\<lparr>world_tracker := t1\<rparr>)
           | (Inr result, t1) \<Rightarrow>
               after_create api eng int_ok now_iso x result (w\<lparr>world_tracker := t1\<rparr>))"

text \<open>
  The \<open>update\<close> branch: the labels are added and their opposite of the pair
  Contexted / No Context is removed.
\<close>

definition label_payload :: "string list option \<Rightarrow> string list option \<times> string list option" where
  "label_payload labels_arg =
     (if labels_arg = None \<or> labels_arg = Some [] then (None, None)
      else
        let add_labels = remdups (filter (\<lambda>l. l \<noteq> []) (the labels_arg))
        in (Some add_labels,
            Some ((if ''Contexted'' \<in> set add_labels then [''No Context''] else [])
                  @ (if ''No Context'' \<in> set add_labels then [''Contexted''] else []))))"

definition apply_update :: "'t wrapper \<Rightarrow> SyncEngine \<Rightarrow> SyncOperation \<Rightarrow> 't world \<Rightarrow> outcome \<times> 't world" where
  "apply_update api eng x w =
     (let allowed = allowed_states eng (op_content_type x);
          state_arg = (if truthy (op_state x) then op_state x else None)
      in if validate_issue_update_payload state_arg allowed \<noteq> [] then
           (Failed (''error for '' @ op_content_key x @ '': invalid update payload''), w)
         else
           let payload = \<lparr>payload_state = state_arg,
                           payload_add_labels = fst (label_payload (op_labels x)),
                           payload_remove_labels = snd (label_payload (op_labels x))\<rparr>
           in case issue_update api (the (op_issue_id x)) payload (world_tracker w) of
                (Inl e, t1) \<Rightarrow>
                  (Failed (''linctl error for '' @ op_content_key x), w\<lparr>world_tracker := t1\<rparr>)
              | (Inr u, t1) \<Rightarrow>
                  (Succeeded (''updated '' @ the (op_issue_id x) @ '' for '' @ op_content_key x),
                   w\<lparr>world_tracker := t1,
                     world_store := register_issue (op_content_key x) (the (op_issue_id x))
                                      (world_store w)\<rparr>))"

definition apply_operation ::
  "'t wrapper \<Rightarrow> SyncEngine \<Rightarrow> string \<Rightarrow> (string \<Rightarrow> bool) \<Rightarrow> string \<Rightarrow> SyncOperation \<Rightarrow> 't world
   \<Rightarrow> outcome \<times> 't world" where
  "apply_operation api eng project_id int_ok now_iso x w =
     (if op_action x = ''create'' then apply_create api eng project_id int_ok now_iso x w
      else if op_action x = ''update'' \<and> truthy (op_issue_id x) then apply_update api eng x w
      else (Skipped (''planned update, missing issue_id: '' @ op_content_key x), w))"

text \<open>The loop over the operations, with the two counters and the messages.\<close>

fun apply_loop ::
  "'t wrapper \<Rightarrow> SyncEngine \<Rightarrow> string \<Rightarrow> (string \<Rightarrow> bool) \<Rightarrow> string \<Rightarrow> SyncOperation list
   \<Rightarrow> nat \<times> nat \<times> string list \<times> 't world \<Rightarrow> nat \<times> nat \<times> string list \<times> 't world" where
  "apply_loop api eng project_id int_ok now_iso [] acc = acc"
| "apply_loop api eng project_id int_ok now_iso (x # xs) (success, failed, messages, w) =
     (case apply_operation api eng project_id int_ok now_iso x w of
        (Succeeded m, w') \<Rightarrow>
          apply_loop api eng project_id int_ok now_iso xs (Suc success, failed, messages @ [m], w')
      | (Failed m, w') \<Rightarrow>
          apply_loop api eng project_id int_ok now_iso xs (success, Suc failed, messages @ [m], w')
      | (Skipped m, w') \<Rightarrow>
          apply_loop api eng project_id int_ok now_iso xs (success, failed, messages @ [m], w'))"

text \<open>
  The snapshot before the loop: \<open>backups/pre-sync-<stamp>\<close> is created if need be and
  each of the three state files that exists is copied into it. The rollback after the
  loop copies back each file that the snapshot directory holds.
\<close>

definition empty_snapshot :: snapshot where
  "empty_snapshot =
     \<lparr>saved_content_index = None, saved_sync_state = None, saved_number_registry = None\<rparr>"

definition backup_state :: "string \<Rightarrow> store \<Rightarrow> store" where
  "backup_state stamp st =
     (let old = (case map_of (pre_sync_backups st) stamp of None \<Rightarrow> empty_snapshot | Some s \<Rightarrow> s);
          new = \<lparr>saved_content_index =
                   (case content_index_file st of None \<Rightarrow> saved_content_index old | Some x \<Rightarrow> Some x),
                 saved_sync_state =
                   (case sync_state_file st of None \<Rightarrow> saved_sync_state old | Some x \<Rightarrow> Some x),
                 saved_number_registry =
                   (case number_registry_file st of None \<Rightarrow> saved_number_registry old | Some x \<Rightarrow> Some x)\<rparr>
      in st\<lparr>pre_sync_backups := dict_set stamp new (pre_sync_backups st)\<rparr>)"

definition restore_state :: "string \<Rightarrow> store \<Rightarrow> store" where
  "restore_state stamp st =
     (let saved = (case map_of (pre_sync_backups st) stamp of None \<Rightarrow> empty_snapshot | Some s \<Rightarrow> s)
      in st\<lparr>content_index_file :=
               (case saved_content_index saved of None \<Rightarrow> content_index_file st | Some x \<Rightarrow> Some x),
             sync_state_file :=
               (case saved_sync_state saved of None \<Rightarrow> sync_state_file st | Some x \<Rightarrow> Some x),
             number_registry_file :=
               (case saved_number_registry saved of None \<Rightarrow> number_registry_file st | Some x \<Rightarrow> Some x)\<rparr>)"

text \<open>
  \<open>SyncEngine.apply(operations)\<close> returns \<open>(success, failed, messages)\<close>
  (\<open>apply\<close> is a keyword here, hence the name). \<open>project_id\<close> is what
  \<open>ensure_project_id()\<close> returned, \<open>now_stamp\<close> the clock reading in the name of the
  snapshot directory.
\<close>

definition engine_apply ::
  "'t wrapper \<Rightarrow> SyncEngine \<Rightarrow> string option \<Rightarrow> (string \<Rightarrow> bool) \<Rightarrow> string \<Rightarrow> string
   \<Rightarrow> SyncOperation list \<Rightarrow> 't world \<Rightarrow> (nat \<times> nat \<times> string list) \<times> 't world" where
  "engine_apply api eng project_id int_ok now_stamp now_iso operations w =
     (if dry_run eng then ((0, 0, [''dry_run: no operations applied'']), w)
      else if \<not> truthy project_id then
        ((0, 0, [''error: project ID required but not provided'']), w)
      else
        let w0 = w\<lparr>world_store := backup_state now_stamp (world_store w)\<rparr>;
            r = apply_loop api eng (the project_id) int_ok now_iso operations (0, 0, [], w0);
            success = fst r;
            failed = fst (snd r);
            messages = fst (snd (snd r));
            w1 = snd (snd (snd r))
        in if failed > 0 then
             ((success, failed,
               messages @ [''rollback: restored state from pre-sync backup due to failures'']),
              w1\<lparr>world_store := restore_state now_stamp (world_store w1)\<rparr>)
           else ((success, failed, messages), w1))"

chapter \<open>Properties\<close>

section \<open>Dictionaries\<close>

text \<open>A Python dictionary holds each key once.\<close>

lemma set_dict_set:
  "distinct (map fst d) \<Longrightarrow> set (dict_set k v d) \<subseteq> insert (k, v) {p \<in> set d. fst p \<noteq> k}"
proof (induction d)
  case Nil
  then show ?case by simp
next
  case (Cons p d)
  obtain k' v' where p: "p = (k', v')" by (cases p)
  show ?case
  proof (cases "k' = k")
    case True
    with Cons.prems p have "\<forall>q \<in> set d. fst q \<noteq> k" by force
    with True p show ?thesis by auto
  next
    case False
    with Cons p show ?thesis by auto
  qed
qed

lemma keys_dict_set:
  "map fst (dict_set k v d) = (if k \<in> set (map fst d) then map fst d else map fst d @ [k])"
  by (induction d) (force simp: image_iff)+

lemma distinct_dict_set:
  "distinct (map fst d) \<Longrightarrow> distinct (map fst (dict_set k v d))"
  by (simp add: keys_dict_set)

section \<open>Numbering registry\<close>

definition keys_are_numbers :: "EpicNumberingSystem \<Rightarrow> bool" where
  "keys_are_numbers sys \<longleftrightarrow>
     distinct (map fst (registry_epics sys)) \<and>
     (\<forall>(k, m) \<in> set (registry_epics sys). meta_epic_number m = k)"

lemma reserve_keeps_invariant:
  assumes inv: "keys_are_numbers sys" "ranges_disjoint sys"
    and ok: "reserve_epic_range now sys n = Inr (sys', r)"
  shows "keys_are_numbers sys' \<and> ranges_disjoint sys'"
proof -
  define rg where "rg = calculate_epic_range sys n"
  define meta where "meta = \<lparr>meta_epic_number = n, meta_base = base_number rg,
      meta_range = (range_start rg, range_end rg), meta_reserved_count = reserved_count rg,
      meta_reserved_at = now\<rparr>"
  from ok have noconf: "check_conflicts sys rg = []"
    and sys': "registry_epics sys' = dict_set n meta (registry_epics sys)"
    by (auto simp: reserve_epic_range_def Let_def rg_def meta_def split: if_splits)
  have rgn: "epic_number rg = n" by (simp add: rg_def calculate_epic_range_def Let_def)
  have sub: "set (registry_epics sys') \<subseteq> insert (n, meta) {p \<in> set (registry_epics sys). fst p \<noteq> n}"
    unfolding sys' using inv(1) by (intro set_dict_set) (simp add: keys_are_numbers_def)
  have old_free: "range_numbers meta \<inter> range_numbers m = {}"
    if "(k, m) \<in> set (registry_epics sys)" "k \<noteq> n" for k m
  proof -
    from that inv(1) have "meta_epic_number m \<noteq> n" by (auto simp: keys_are_numbers_def)
    with noconf that(1) rgn
    have "\<not> (range_start rg \<le> snd (meta_range m) \<and> range_end rg \<ge> fst (meta_range m))"
      by (auto simp: check_conflicts_def filter_empty_conv)
    then show ?thesis by (auto simp: range_numbers_def meta_def)
  qed
  have "distinct (map fst (registry_epics sys'))"
    unfolding sys' using inv(1) by (intro distinct_dict_set) (simp add: keys_are_numbers_def)
  then have k: "keys_are_numbers sys'"
    using sub inv(1) by (auto simp: keys_are_numbers_def meta_def)
  have d: "ranges_disjoint sys'"
    unfolding ranges_disjoint_def
  proof (intro ballI, clarify)
    fix k1 a k2 b
    assume a: "(k1, a) \<in> set (registry_epics sys')" and b: "(k2, b) \<in> set (registry_epics sys')"
      and ne: "meta_epic_number a \<noteq> meta_epic_number b"
    from a sub have ca: "(k1, a) = (n, meta) \<or> ((k1, a) \<in> set (registry_epics sys) \<and> k1 \<noteq> n)"
      by auto
    from b sub have cb: "(k2, b) = (n, meta) \<or> ((k2, b) \<in> set (registry_epics sys) \<and> k2 \<noteq> n)"
      by auto
    from ca cb ne inv(2) old_free show "range_numbers a \<inter> range_numbers b = {}"
      by (fastforce simp: ranges_disjoint_def)
  qed
  from k d show ?thesis ..
qed

lemma reserved_from_empty_invariant:
  "reserved_from_empty sys \<Longrightarrow> keys_are_numbers sys \<and> ranges_disjoint sys"
proof (induction rule: reserved_from_empty.induct)
  case (fresh base block)
  show ?case by (simp add: keys_are_numbers_def ranges_disjoint_def new_numbering_system_def)
next
  case (reserved sys now n sys' r)
  then show ?case using reserve_keeps_invariant by blast
next
  case (reopened sys base block)
  then show ?case by (simp add: keys_are_numbers_def ranges_disjoint_def)
qed

text \<open>
  C6. After any sequence of \<open>reserve_epic_range\<close> calls that returned, starting from an
  empty registry, any two registered epics with distinct epic numbers have disjoint
  reserved ranges \<open>[start, end]\<close>.
\<close>

theorem numbering_non_overlap:
  assumes "reserved_from_empty sys"
    and "(k1, a) \<in> set (registry_epics sys)" and "(k2, b) \<in> set (registry_epics sys)"
    and "meta_epic_number a \<noteq> meta_epic_number b"
  shows "{fst (meta_range a) .. snd (meta_range a)} \<inter> {fst (meta_range b) .. snd (meta_range b)} = {}"
proof -
  from assms(1) have "ranges_disjoint sys"
    using reserved_from_empty_invariant by blast
  with assms(2-4) show ?thesis
    by (fastforce simp: ranges_disjoint_def range_numbers_def)
qed

theorem numbering_non_overlap_witness:
  "reserved_from_empty
     \<lparr>epic_base = 360, block_size = 20,
      registry_epics =
        [(1, \<lparr>meta_epic_number = 1, meta_base = 360, meta_range = (360, 379),
               meta_reserved_count = 20, meta_reserved_at = ''t1''\<rparr>),
         (2, \<lparr>meta_epic_number = 2, meta_base = 380, meta_range = (380, 399),
               meta_reserved_count = 20, meta_reserved_at = ''t2''\<rparr>)],
      registry_reserved_ranges = [(360, 379), (380, 399)]\<rparr>
   \<and> {360 .. 379} \<inter> {380 .. 399} = ({} :: int set)"
proof -
  let ?m1 = "\<lparr>meta_epic_number = 1, meta_base = 360, meta_range = (360, 379),
               meta_reserved_count = 20, meta_reserved_at = ''t1''\<rparr>"
  let ?m2 = "\<lparr>meta_epic_number = 2, meta_base = 380, meta_range = (380, 399),
               meta_reserved_count = 20, meta_reserved_at = ''t2''\<rparr>"
  let ?s1 = "\<lparr>epic_base = 360, block_size = 20, registry_epics = [(1, ?m1)],
              registry_reserved_ranges = [(360, 379)]\<rparr>"
  let ?s2 = "\<lparr>epic_base = 360, block_size = 20, registry_epics = [(1, ?m1), (2, ?m2)],
              registry_reserved_ranges = [(360, 379), (380, 399)]\<rparr>"
  have r1: "reserve_epic_range ''t1'' (new_numbering_system 360 20) 1
            = Inr (?s1, calculate_epic_range (new_numbering_system 360 20) 1)"
    by (simp add: reserve_epic_range_def check_conflicts_def calculate_epic_range_def
        new_numbering_system_def)
  have r2: "reserve_epic_range ''t2'' ?s1 2 = Inr (?s2, calculate_epic_range ?s1 2)"
    by (simp add: reserve_epic_range_def check_conflicts_def calculate_epic_range_def)
  have reach: "reserved_from_empty ?s2"
    using reserved [OF reserved [OF fresh r1] r2] .
  have "{fst (meta_range ?m1) .. snd (meta_range ?m1)}
        \<inter> {fst (meta_range ?m2) .. snd (meta_range ?m2)} = {}"
    by (rule numbering_non_overlap [OF reach, of 1 ?m1 2 ?m2]) simp_all
  with reach show ?thesis by simp
qed

section \<open>Conflict detection\<close>

text \<open>
  C5. With a last-sync timestamp (a non-empty string), \<open>detect_conflict\<close> returns a
  conflict if and only if the local state differs from the mapped remote state, the
  local update is strictly after the last sync and the remote update is strictly
  after the last sync.
\<close>

theorem detect_conflict_iff:
  "is_conflict (detect_conflict cfg fromisoformat now_stamp now_iso
       content_key bmad_state bmad_updated linear_state linear_updated (Some last_sync))
   \<longleftrightarrow>
     last_sync \<noteq> [] \<and>
     differs_from_mapped cfg bmad_state linear_state \<and>
     strictly_after fromisoformat bmad_updated last_sync \<and>
     strictly_after fromisoformat linear_updated last_sync"
  by (auto simp: is_conflict_def detect_conflict_def differs_from_mapped_def
      strictly_after_def truthy_def split: sum.splits bool.splits option.splits)

text \<open>
  C10. Without a last-sync timestamp \<open>detect_conflict\<close> never returns a conflict,
  whatever the states and update times are: it returns \<open>None\<close>, or raises the mapping
  error of a strict configuration.
\<close>

theorem detect_conflict_without_last_sync:
  "\<not> is_conflict (detect_conflict cfg fromisoformat now_stamp now_iso
       content_key bmad_state bmad_updated linear_state linear_updated None)
   \<and> detect_conflict cfg fromisoformat now_stamp now_iso
       content_key bmad_state bmad_updated linear_state linear_updated None
     = map_sum id (\<lambda>m. None) (linear_to_bmad cfg linear_state ''story'' False)"
  by (auto simp: is_conflict_def detect_conflict_def truthy_def split: sum.splits)

section \<open>Three-way merge\<close>

lemma strictly_after_gt:
  "strictly_after f a b \<Longrightarrow>
     \<exists>x y. parse_timestamp f a = Inr x \<and> parse_timestamp f b = Inr y \<and> datetime_gt x y = Inr True"
  by (auto simp: strictly_after_def split: sum.splits)

lemma datetime_gt_swap:
  "datetime_gt y x = Inr True \<Longrightarrow> datetime_gt x y = Inr False"
  by (cases x; cases y) auto

lemma strictly_after_lt:
  "strictly_after f b a \<Longrightarrow>
     \<exists>x y. parse_timestamp f a = Inr x \<and> parse_timestamp f b = Inr y \<and> datetime_gt x y = Inr False"
  by (auto simp: strictly_after_def split: sum.splits dest: datetime_gt_swap)

text \<open>
  The claim as stated fails where the local and the remote state both equal the
  ancestor: the remote state equals the ancestor, yet the recommendation is
  keep-linear (keep-remote), not keep-bmad (keep-local), and the automatic merge takes
  the Linear side.
\<close>

theorem three_way_remote_rule_counterexample:
  "tw_linear_state
     \<lparr>tw_conflict_id = ''3way-1-1-a-0'', tw_content_key = ''1-1-a'', tw_bmad_state = ''done'',
      tw_linear_state = ''done'', ancestor_state = Some ''done'',
      tw_bmad_updated = ''2025-11-06T14:00:00'', tw_linear_updated = ''2025-11-06T15:00:00'',
      ancestor_updated = Some ''2025-11-06T13:00:00''\<rparr> = ''done''
   \<and> recommend_three_way_resolution Map.empty
     \<lparr>tw_conflict_id = ''3way-1-1-a-0'', tw_content_key = ''1-1-a'', tw_bmad_state = ''done'',
      tw_linear_state = ''done'', ancestor_state = Some ''done'',
      tw_bmad_updated = ''2025-11-06T14:00:00'', tw_linear_updated = ''2025-11-06T15:00:00'',
      ancestor_updated = Some ''2025-11-06T13:00:00''\<rparr>
     = Inr (''keep-linear (BMAD unchanged since ancestor)'', 0.9)
   \<and> recommend_three_way_resolution Map.empty
     \<lparr>tw_conflict_id = ''3way-1-1-a-0'', tw_content_key = ''1-1-a'', tw_bmad_state = ''done'',
      tw_linear_state = ''done'', ancestor_state = Some ''done'',
      tw_bmad_updated = ''2025-11-06T14:00:00'', tw_linear_updated = ''2025-11-06T15:00:00'',
      ancestor_updated = Some ''2025-11-06T13:00:00''\<rparr>
     \<noteq> Inr (''keep-bmad (Linear unchanged since ancestor)'', 0.9)"
  by (simp add: recommend_three_way_resolution_def truthy_def)

text \<open>
  C8 as amended. With a non-empty ancestor state: a local (BMAD) state equal to the
  ancestor gives keep-linear at 0.9; a remote (Linear) state equal to the ancestor,
  the local one differing from it, gives keep-bmad at 0.9; when both differ, a local
  update strictly after the remote one gives keep-bmad at 0.7 and a remote update
  strictly after the local one gives keep-linear at 0.7. Without an ancestor state the
  recommendation names no side and has confidence 0.5, and the automatic merge takes
  the side updated last. In every case the automatic strategy returns the state of the
  recommended side with the recommendation's confidence.
\<close>

theorem three_way_recommendation:
  fixes f :: "string \<Rightarrow> datetime option" and c :: ThreeWayConflict
  defines "rec \<equiv> recommend_three_way_resolution f c"
    and "auto \<equiv> perform_three_way_merge f c ''auto''"
  shows
    "(truthy (ancestor_state c) \<and> Some (tw_bmad_state c) = ancestor_state c \<longrightarrow>
        rec = Inr (''keep-linear (BMAD unchanged since ancestor)'', 0.9) \<and>
        auto = Inr (use_linear c ''auto'' (Some 0.9)))
     \<and> (truthy (ancestor_state c) \<and> Some (tw_linear_state c) = ancestor_state c \<and>
        Some (tw_bmad_state c) \<noteq> ancestor_state c \<longrightarrow>
        rec = Inr (''keep-bmad (Linear unchanged since ancestor)'', 0.9) \<and>
        auto = Inr (use_bmad c ''auto'' (Some 0.9)))
     \<and> (truthy (ancestor_state c) \<and> Some (tw_bmad_state c) \<noteq> ancestor_state c \<and>
        Some (tw_linear_state c) \<noteq> ancestor_state c \<and>
        strictly_after f (tw_bmad_updated c) (tw_linear_updated c) \<longrightarrow>
        rec = Inr (''keep-bmad (more recent changes)'', 0.7) \<and>
        auto = Inr (use_bmad c ''auto'' (Some 0.7)))
     \<and> (truthy (ancestor_state c) \<and> Some (tw_bmad_state c) \<noteq> ancestor_state c \<and>
        Some (tw_linear_state c) \<noteq> ancestor_state c \<and>
        strictly_after f (tw_linear_updated c) (tw_bmad_updated c) \<longrightarrow>
        rec = Inr (''keep-linear (more recent changes)'', 0.7) \<and>
        auto = Inr (use_linear c ''auto'' (Some 0.7)))
     \<and> (\<not> truthy (ancestor_state c) \<longrightarrow>
        rec = Inr (''intelligent-merge (no ancestor available)'', 0.5) \<and>
        (strictly_after f (tw_bmad_updated c) (tw_linear_updated c) \<longrightarrow>
           auto = Inr (use_bmad c ''auto'' (Some 0.5))) \<and>
        (strictly_after f (tw_linear_updated c) (tw_bmad_updated c) \<longrightarrow>
           auto = Inr (use_linear c ''auto'' (Some 0.5))))"
proof (intro conjI impI)
  assume "truthy (ancestor_state c) \<and> Some (tw_bmad_state c) = ancestor_state c"
  then show "rec = Inr (''keep-linear (BMAD unchanged since ancestor)'', 0.9)"
    by (simp add: rec_def recommend_three_way_resolution_def)
  then show "auto = Inr (use_linear c ''auto'' (Some 0.9))"
    by (simp add: auto_def rec_def perform_three_way_merge_def)
next
  assume "truthy (ancestor_state c) \<and> Some (tw_linear_state c) = ancestor_state c \<and>
        Some (tw_bmad_state c) \<noteq> ancestor_state c"
  then show "rec = Inr (''keep-bmad (Linear unchanged since ancestor)'', 0.9)"
    by (simp add: rec_def recommend_three_way_resolution_def)
  then show "auto = Inr (use_bmad c ''auto'' (Some 0.9))"
    by (simp add: auto_def rec_def perform_three_way_merge_def)
next
  assume a: "truthy (ancestor_state c) \<and> Some (tw_bmad_state c) \<noteq> ancestor_state c \<and>
        Some (tw_linear_state c) \<noteq> ancestor_state c \<and>
        strictly_after f (tw_bmad_updated c) (tw_linear_updated c)"
  then show "rec = Inr (''keep-bmad (more recent changes)'', 0.7)"
    by (auto simp: rec_def recommend_three_way_resolution_def dest!: strictly_after_gt)
  then show "auto = Inr (use_bmad c ''auto'' (Some 0.7))"
    by (simp add: auto_def rec_def perform_three_way_merge_def)
next
  assume a: "truthy (ancestor_state c) \<and> Some (tw_bmad_state c) \<noteq> ancestor_state c \<and>
        Some (tw_linear_state c) \<noteq> ancestor_state c \<and>
        strictly_after f (tw_linear_updated c) (tw_bmad_updated c)"
  then show "rec = Inr (''keep-linear (more recent changes)'', 0.7)"
    by (auto simp: rec_def recommend_three_way_resolution_def dest!: strictly_after_lt)
  then show "auto = Inr (use_linear c ''auto'' (Some 0.7))"
    by (simp add: auto_def rec_def perform_three_way_merge_def)
next
  assume n: "\<not> truthy (ancestor_state c)"
  then show r: "rec = Inr (''intelligent-merge (no ancestor available)'', 0.5)"
    by (simp add: rec_def recommend_three_way_resolution_def)
  {
    assume "strictly_after f (tw_bmad_updated c) (tw_linear_updated c)"
    with r show "auto = Inr (use_bmad c ''auto'' (Some 0.5))"
      by (auto simp: auto_def rec_def perform_three_way_merge_def dest!: strictly_after_gt)
  }
  {
    assume "strictly_after f (tw_linear_updated c) (tw_bmad_updated c)"
    with r show "auto = Inr (use_linear c ''auto'' (Some 0.5))"
      by (auto simp: auto_def rec_def perform_three_way_merge_def dest!: strictly_after_lt)
  }
qed

text \<open>
  The four kinds of recommendation at concrete conflicts, the clock reading \<open>T14\<close>
  before \<open>T15\<close>: the local side unchanged, the remote side unchanged, both changed
  with the remote update the later one, and no ancestor.
\<close>

theorem three_way_recommendation_witness:
  "recommend_three_way_resolution [''T14'' \<mapsto> Naive 14, ''T15'' \<mapsto> Naive 15]
     \<lparr>tw_conflict_id = ''3way-1-1-a-0'', tw_content_key = ''1-1-a'', tw_bmad_state = ''ready-for-dev'',
      tw_linear_state = ''review'', ancestor_state = Some ''ready-for-dev'',
      tw_bmad_updated = ''T14'', tw_linear_updated = ''T15'',
      ancestor_updated = None\<rparr>
     = Inr (''keep-linear (BMAD unchanged since ancestor)'', 0.9)
   \<and> perform_three_way_merge [''T14'' \<mapsto> Naive 14, ''T15'' \<mapsto> Naive 15]
     \<lparr>tw_conflict_id = ''3way-1-1-a-0'', tw_content_key = ''1-1-a'', tw_bmad_state = ''ready-for-dev'',
      tw_linear_state = ''review'', ancestor_state = Some ''ready-for-dev'',
      tw_bmad_updated = ''T14'', tw_linear_updated = ''T15'',
      ancestor_updated = None\<rparr> ''auto''
     = Inr (use_linear
     \<lparr>tw_conflict_id = ''3way-1-1-a-0'', tw_content_key = ''1-1-a'', tw_bmad_state = ''ready-for-dev'',
      tw_linear_state = ''review'', ancestor_state = Some ''ready-for-dev'',
      tw_bmad_updated = ''T14'', tw_linear_updated = ''T15'',
      ancestor_updated = None\<rparr> ''auto'' (Some 0.9))
   \<and> recommend_three_way_resolution [''T14'' \<mapsto> Naive 14, ''T15'' \<mapsto> Naive 15]
     \<lparr>tw_conflict_id = ''3way-1-1-a-0'', tw_content_key = ''1-1-a'', tw_bmad_state = ''review'',
      tw_linear_state = ''ready-for-dev'', ancestor_state = Some ''ready-for-dev'',
      tw_bmad_updated = ''T14'', tw_linear_updated = ''T15'',
      ancestor_updated = None\<rparr>
     = Inr (''keep-bmad (Linear unchanged since ancestor)'', 0.9)
   \<and> perform_three_way_merge [''T14'' \<mapsto> Naive 14, ''T15'' \<mapsto> Naive 15]
     \<lparr>tw_conflict_id = ''3way-1-1-a-0'', tw_content_key = ''1-1-a'', tw_bmad_state = ''review'',
      tw_linear_state = ''ready-for-dev'', ancestor_state = Some ''ready-for-dev'',
      tw_bmad_updated = ''T14'', tw_linear_updated = ''T15'',
      ancestor_updated = None\<rparr> ''auto''
     = Inr (use_bmad
     \<lparr>tw_conflict_id = ''3way-1-1-a-0'', tw_content_key = ''1-1-a'', tw_bmad_state = ''review'',
      tw_linear_state = ''ready-for-dev'', ancestor_state = Some ''ready-for-dev'',
      tw_bmad_updated = ''T14'', tw_linear_updated = ''T15'',
      ancestor_updated = None\<rparr> ''auto'' (Some 0.9))
   \<and> recommend_three_way_resolution [''T14'' \<mapsto> Naive 14, ''T15'' \<mapsto> Naive 15]
     \<lparr>tw_conflict_id = ''3way-1-1-a-0'', tw_content_key = ''1-1-a'', tw_bmad_state = ''review'',
      tw_linear_state = ''done'', ancestor_state = Some ''ready-for-dev'',
      tw_bmad_updated = ''T14'', tw_linear_updated = ''T15'',
      ancestor_updated = None\<rparr>
     = Inr (''keep-linear (more recent changes)'', 0.7)
   \<and> perform_three_way_merge [''T14'' \<mapsto> Naive 14, ''T15'' \<mapsto> Naive 15]
     \<lparr>tw_conflict_id = ''3way-1-1-a-0'', tw_content_key = ''1-1-a'', tw_bmad_state = ''review'',
      tw_linear_state = ''done'', ancestor_state = Some ''ready-for-dev'',
      tw_bmad_updated = ''T14'', tw_linear_updated = ''T15'',
      ancestor_updated = None\<rparr> ''auto''
     = Inr (use_linear
     \<lparr>tw_conflict_id = ''3way-1-1-a-0'', tw_content_key = ''1-1-a'', tw_bmad_state = ''review'',
      tw_linear_state = ''done'', ancestor_state = Some ''ready-for-dev'',
      tw_bmad_updated = ''T14'', tw_linear_updated = ''T15'',
      ancestor_updated = None\<rparr> ''auto'' (Some 0.7))
   \<and> recommend_three_way_resolution [''T14'' \<mapsto> Naive 14, ''T15'' \<mapsto> Naive 15]
     \<lparr>tw_conflict_id = ''3way-1-1-a-0'', tw_content_key = ''1-1-a'', tw_bmad_state = ''review'',
      tw_linear_state = ''done'', ancestor_state = None,
      tw_bmad_updated = ''T14'', tw_linear_updated = ''T15'',
      ancestor_updated = None\<rparr>
     = Inr (''intelligent-merge (no ancestor available)'', 0.5)
   \<and> perform_three_way_merge [''T14'' \<mapsto> Naive 14, ''T15'' \<mapsto> Naive 15]
     \<lparr>tw_conflict_id = ''3way-1-1-a-0'', tw_content_key = ''1-1-a'', tw_bmad_state = ''review'',
      tw_linear_state = ''done'', ancestor_state = None,
      tw_bmad_updated = ''T14'', tw_linear_updated = ''T15'',
      ancestor_updated = None\<rparr> ''auto''
     = Inr (use_linear
     \<lparr>tw_conflict_id = ''3way-1-1-a-0'', tw_content_key = ''1-1-a'', tw_bmad_state = ''review'',
      tw_linear_state = ''done'', ancestor_state = None,
      tw_bmad_updated = ''T14'', tw_linear_updated = ''T15'',
      ancestor_updated = None\<rparr> ''auto'' (Some 0.5))"
  using three_way_recommendation [where f = "[''T14'' \<mapsto> Naive 14, ''T15'' \<mapsto> Naive 15]" and c =
     "\<lparr>tw_conflict_id = ''3way-1-1-a-0'', tw_content_key = ''1-1-a'', tw_bmad_state = ''ready-for-dev'',
      tw_linear_state = ''review'', ancestor_state = Some ''ready-for-dev'',
      tw_bmad_updated = ''T14'', tw_linear_updated = ''T15'',
      ancestor_updated = None\<rparr>"]
    three_way_recommendation [where f = "[''T14'' \<mapsto> Naive 14, ''T15'' \<mapsto> Naive 15]" and c =
     "\<lparr>tw_conflict_id = ''3way-1-1-a-0'', tw_content_key = ''1-1-a'', tw_bmad_state = ''review'',
      tw_linear_state = ''ready-for-dev'', ancestor_state = Some ''ready-for-dev'',
      tw_bmad_updated = ''T14'', tw_linear_updated = ''T15'',
      ancestor_updated = None\<rparr>"]
    three_way_recommendation [where f = "[''T14'' \<mapsto> Naive 14, ''T15'' \<mapsto> Naive 15]" and c =
     "\<lparr>tw_conflict_id = ''3way-1-1-a-0'', tw_content_key = ''1-1-a'', tw_bmad_state = ''review'',
      tw_linear_state = ''done'', ancestor_state = Some ''ready-for-dev'',
      tw_bmad_updated = ''T14'', tw_linear_updated = ''T15'',
      ancestor_updated = None\<rparr>"]
    three_way_recommendation [where f = "[''T14'' \<mapsto> Naive 14, ''T15'' \<mapsto> Naive 15]" and c =
     "\<lparr>tw_conflict_id = ''3way-1-1-a-0'', tw_content_key = ''1-1-a'', tw_bmad_state = ''review'',
      tw_linear_state = ''done'', ancestor_state = None,
      tw_bmad_updated = ''T14'', tw_linear_updated = ''T15'',
      ancestor_updated = None\<rparr>"]
  by (simp_all add: truthy_def strictly_after_def parse_timestamp_def)

section \<open>Retries of the tracker CLI\<close>

lemma exec_loop_invocations: "invocations (exec_loop run jl retries d as) \<le> length as"
  by (induction as)
     (auto simp: retried_def finished_def split: proc_outcome.splits)

lemma exec_loop_started:
  "as \<noteq> [] \<Longrightarrow> 0 < invocations (exec_loop run jl retries d as)"
  by (cases as) (auto simp: retried_def finished_def split: proc_outcome.splits)

text \<open>One pass of the loop body: it sleeps and goes on, or it is the last one.\<close>

lemma exec_loop_retry:
  "retryable (run a) \<and> int a < retries \<Longrightarrow>
     exec_loop run jl retries d (a # rest)
       = retried (exec_loop run jl retries d rest) (d * 2 ^ a)"
  by (auto simp: retryable_def split: proc_outcome.splits)

lemma exec_loop_finish:
  "\<not> (retryable (run a) \<and> int a < retries) \<Longrightarrow>
     invocations (exec_loop run jl retries d (a # rest)) = 1 \<and>
     sleeps (exec_loop run jl retries d (a # rest)) = []"
  by (auto simp: retryable_def finished_def split: proc_outcome.splits)

lemma exec_loop_sleeps:
  assumes b: "b = nat (retries + 1)"
  shows "sleeps (exec_loop run jl retries d [a ..< b])
     = map (\<lambda>k. d * 2 ^ k) [a ..< a + (invocations (exec_loop run jl retries d [a ..< b]) - 1)]"
proof (induction "b - a" arbitrary: a)
  case 0
  then show ?case by simp
next
  case (Suc n)
  then have ab: "a < b" and n: "n = b - Suc a" by auto
  have step: "[a ..< b] = a # [Suc a ..< b]" using ab by (simp add: upt_rec)
  let ?rest = "exec_loop run jl retries d [Suc a ..< b]"
  note ih = Suc.hyps(1) [OF n]
  show ?case
  proof (cases "retryable (run a) \<and> int a < retries")
    case True
    then have "Suc a < b" using b by linarith
    then have "[Suc a ..< b] \<noteq> []" by simp
    then have pos: "0 < invocations ?rest" by (rule exec_loop_started)
    have e: "exec_loop run jl retries d [a ..< b] = retried ?rest (d * 2 ^ a)"
      unfolding step using True by (rule exec_loop_retry)
    have "[a ..< a + invocations ?rest] = a # [Suc a ..< Suc a + (invocations ?rest - 1)]"
      using pos by (simp add: upt_rec [of a])
    then show ?thesis
      unfolding e using ih by (simp add: retried_def)
  next
    case False
    from exec_loop_finish [where run = run and a = a and retries = retries and jl = jl and d = d
        and rest = "[Suc a ..< b]", OF False]
    have "invocations (exec_loop run jl retries d [a ..< b]) = 1"
      and "sleeps (exec_loop run jl retries d [a ..< b]) = []"
      unfolding step by blast+
    then show ?thesis by simp
  qed
qed

text \<open>Every attempt but the last one made ended in a retryable outcome.\<close>

lemma exec_loop_retried:
  "a \<le> k \<Longrightarrow> Suc k < a + invocations (exec_loop run jl retries d [a ..< b])
   \<Longrightarrow> retryable (run k) \<and> int k < retries"
proof (induction "b - a" arbitrary: a)
  case 0
  then show ?case by simp
next
  case (Suc n)
  then have ab: "a < b" and n: "n = b - Suc a" by auto
  have step: "[a ..< b] = a # [Suc a ..< b]" using ab by (simp add: upt_rec)
  let ?rest = "exec_loop run jl retries d [Suc a ..< b]"
  show ?case
  proof (cases "retryable (run a) \<and> int a < retries")
    case True
    have e: "exec_loop run jl retries d [a ..< b] = retried ?rest (d * 2 ^ a)"
      unfolding step using True by (rule exec_loop_retry)
    show ?thesis
    proof (cases "k = a")
      case True
      with \<open>retryable (run a) \<and> int a < retries\<close> show ?thesis by simp
    next
      case False
      with Suc.prems have "Suc a \<le> k" by simp
      moreover from Suc.prems(2) have "Suc k < Suc a + invocations ?rest"
        unfolding e by (simp add: retried_def)
      ultimately show ?thesis using Suc.hyps(1) [OF n] by blast
    qed
  next
    case False
    from exec_loop_finish [where run = run and a = a and retries = retries and jl = jl and d = d
        and rest = "[Suc a ..< b]", OF False]
    have "invocations (exec_loop run jl retries d [a ..< b]) = 1"
      unfolding step by blast
    with Suc.prems show ?thesis by simp
  qed
qed

text \<open>An attempt that ends in a permanent failure is the last one, and \<open>_exec\<close> raises.\<close>

lemma exec_loop_permanent:
  "a \<le> k \<Longrightarrow> k < a + invocations (exec_loop run jl retries d [a ..< b])
   \<Longrightarrow> permanent_failure (run k)
   \<Longrightarrow> a + invocations (exec_loop run jl retries d [a ..< b]) = Suc k
       \<and> isl (exec_result (exec_loop run jl retries d [a ..< b]))"
proof (induction "b - a" arbitrary: a)
  case 0
  then show ?case by simp
next
  case (Suc n)
  then have ab: "a < b" and n: "n = b - Suc a" by auto
  have step: "[a ..< b] = a # [Suc a ..< b]" using ab by (simp add: upt_rec)
  let ?rest = "exec_loop run jl retries d [Suc a ..< b]"
  show ?case
  proof (cases "k = a")
    case True
    with Suc.prems(3) show ?thesis
      unfolding step
      by (auto simp: permanent_failure_def finished_def split: proc_outcome.splits)
  next
    case False
    with Suc.prems have ka: "Suc a \<le> k" by simp
    show ?thesis
    proof (cases "retryable (run a) \<and> int a < retries")
      case True
      have e: "exec_loop run jl retries d [a ..< b] = retried ?rest (d * 2 ^ a)"
        unfolding step using True by (rule exec_loop_retry)
      from Suc.prems(2) have "k < Suc a + invocations ?rest"
        unfolding e by (simp add: retried_def)
      from Suc.hyps(1) [OF n ka this Suc.prems(3)] show ?thesis
        unfolding e by (simp add: retried_def)
    next
      case False
      from exec_loop_finish [where run = run and a = a and retries = retries and jl = jl and d = d
        and rest = "[Suc a ..< b]", OF False]
      have "invocations (exec_loop run jl retries d [a ..< b]) = 1"
        unfolding step by blast
      with Suc.prems ka show ?thesis by simp
    qed
  qed
qed

text \<open>
  C7. A call of \<open>_exec\<close> with a retry budget \<open>N \<ge> 0\<close> (the argument
  \<open>retries\<close>, or \<open>max_retries\<close> when it is \<open>None\<close>) runs the command at most
  \<open>N + 1\<close> times; it sleeps once before each retry, at most \<open>N\<close> times, and the
  sleep before retry \<open>k\<close> (counted from 0) lasts \<open>retry_delay \<cdot> 2^k\<close>; an attempt is
  followed by another one only if it timed out or exited non-zero with output that
  matches \<open>rate limit\<close>, \<open>timeout\<close> or \<open>network\<close> in any letter case; an
  attempt that exits non-zero with other output is the last one and the call raises.
\<close>

theorem bounded_retries:
  fixes w :: LinctlWrapper and run :: "nat \<Rightarrow> proc_outcome" and json_loads :: "string \<Rightarrow> 'j option"
  assumes budget: "N = (case retries_arg of None \<Rightarrow> max_retries w | Some r \<Rightarrow> r)"
    and N: "0 \<le> N"
  defines "t \<equiv> linctl_exec w run json_loads retries_arg"
  shows "int (invocations t) \<le> N + 1
    \<and> int (length (sleeps t)) \<le> N
    \<and> sleeps t = map (\<lambda>k. retry_delay w * 2 ^ k) [0 ..< invocations t - 1]
    \<and> (\<forall>k. Suc k < invocations t \<longrightarrow> retryable (run k))
    \<and> (\<forall>k. k < invocations t \<and> permanent_failure (run k) \<longrightarrow>
          invocations t = Suc k \<and> isl (exec_result t))"
proof -
  let ?b = "nat (N + 1)"
  have t: "t = exec_loop run json_loads N (retry_delay w) [0 ..< ?b]"
    by (simp add: t_def linctl_exec_def budget Let_def)
  have inv: "invocations t \<le> ?b"
    unfolding t using exec_loop_invocations [of run json_loads N "retry_delay w" "[0 ..< ?b]"]
    by simp
  have sl: "sleeps t = map (\<lambda>k. retry_delay w * 2 ^ k) [0 ..< invocations t - 1]"
    unfolding t using exec_loop_sleeps [of ?b N run json_loads "retry_delay w" 0] by simp
  have re: "retryable (run k)" if "Suc k < invocations t" for k
    using that exec_loop_retried [of 0 k run json_loads N "retry_delay w" ?b]
    unfolding t by simp
  have pe: "invocations t = Suc k \<and> isl (exec_result t)"
    if "k < invocations t \<and> permanent_failure (run k)" for k
    using that exec_loop_permanent [of 0 k run json_loads N "retry_delay w" ?b]
    unfolding t by simp
  from inv N have "int (invocations t) \<le> N + 1" by linarith
  moreover from sl inv N have "int (length (sleeps t)) \<le> N" by simp
  ultimately show ?thesis using sl re pe by blast
qed

text \<open>
  A call with budget 3 and base delay 1 whose first attempt hits the rate limit, whose
  second attempt times out and whose third attempt succeeds.
\<close>

theorem bounded_retries_witness:
  "(0::int) \<le> 3
   \<and> linctl_exec \<lparr>max_retries = 3, retry_delay = 1\<rparr>
        (\<lambda>k. if k = 0 then Completed 1 [] ''Error: Rate Limit exceeded''
             else if k = 1 then TimeoutExpired else Completed 0 ''ok'' [])
        (Map.empty :: string \<Rightarrow> unit option) (Some 3)
      = \<lparr>exec_result = Inr (Output ''ok''), invocations = 3, sleeps = [1, 2]\<rparr>
   \<and> int (invocations (linctl_exec \<lparr>max_retries = 3, retry_delay = 1\<rparr>
        (\<lambda>k. if k = 0 then Completed 1 [] ''Error: Rate Limit exceeded''
             else if k = 1 then TimeoutExpired else Completed 0 ''ok'' [])
        (Map.empty :: string \<Rightarrow> unit option) (Some 3))) \<le> 3 + 1
   \<and> sleeps (linctl_exec \<lparr>max_retries = 3, retry_delay = 1\<rparr>
        (\<lambda>k. if k = 0 then Completed 1 [] ''Error: Rate Limit exceeded''
             else if k = 1 then TimeoutExpired else Completed 0 ''ok'' [])
        (Map.empty :: string \<Rightarrow> unit option) (Some 3))
      = map (\<lambda>k. 1 * 2 ^ k) [0 ..< 3 - 1]"
proof -
  let ?w = "\<lparr>max_retries = 3, retry_delay = 1\<rparr>"
  let ?run = "\<lambda>k::nat. if k = 0 then Completed 1 [] ''Error: Rate Limit exceeded''
             else if k = 1 then TimeoutExpired else Completed 0 ''ok'' []"
  let ?jl = "Map.empty :: string \<Rightarrow> unit option"
  have tr: "transient (error_msg [] ''Error: Rate Limit exceeded'')"
    by code_simp
  have st: "strip ''ok'' = ''ok''"
    by code_simp
  have u: "[0 ..< (4::nat)] = [0, 1, 2, 3]"
    by (simp add: upt_rec)
  have e: "linctl_exec ?w ?run ?jl (Some 3)
      = \<lparr>exec_result = Inr (Output ''ok''), invocations = 3, sleeps = [1, 2]\<rparr>"
    by (simp add: linctl_exec_def u tr st retried_def finished_def)
  from bounded_retries [where w = ?w and run = ?run and json_loads = ?jl
      and retries_arg = "Some 3" and N = 3]
  have "int (invocations (linctl_exec ?w ?run ?jl (Some 3))) \<le> 3 + 1
    \<and> sleeps (linctl_exec ?w ?run ?jl (Some 3))
        = map (\<lambda>k. retry_delay ?w * 2 ^ k) [0 ..< invocations (linctl_exec ?w ?run ?jl (Some 3)) - 1]"
    by simp
  with e show ?thesis by simp
qed

section \<open>Change detection\<close>

text \<open>
  The claim as stated fails for an unchanged story: its key is in both indices, with
  the same hash, and in none of the three lists.
\<close>

theorem diff_partition_counterexample:
  "''1-1-a'' \<in> set (map fst (stories
       \<lparr>last_scan = None, epics = [],
        stories = [(''1-1-a'', \<lparr>entry_file = Some ''stories/1-1-a.md'', entry_hash = Some ''h1'',
                     entry_title = None, entry_status = None, entry_epic = None,
                     entry_story = None\<rparr>)]\<rparr>))
   \<and> snd (discover_all
       \<lparr>last_scan = None, epics = [],
        stories = [(''1-1-a'', \<lparr>entry_file = Some ''stories/1-1-a.md'', entry_hash = Some ''h1'',
                     entry_title = None, entry_status = None, entry_epic = None,
                     entry_story = None\<rparr>)]\<rparr>
       (Some \<lparr>last_scan = None, epics = [],
        stories = [(''1-1-a'', \<lparr>entry_file = Some ''stories/1-1-a.md'', entry_hash = Some ''h1'',
                     entry_title = None, entry_status = None, entry_epic = None,
                     entry_story = None\<rparr>)]\<rparr>))
     = \<lparr>added = [], modified = [], deleted = []\<rparr>"
  by (simp add: discover_all_def hash_of_def)

text \<open>
  C4 as amended. For a previous index \<open>A\<close> and a current index \<open>B\<close>, \<open>added\<close> is
  the story keys of \<open>B\<close> not in \<open>A\<close>, \<open>deleted\<close> those of \<open>A\<close> not in \<open>B\<close>,
  \<open>modified\<close> those of both whose hashes differ; the three are pairwise disjoint and
  together they are the keys of either index except those of both with equal hashes,
  which are in no list.
\<close>

theorem diff_classification:
  fixes A B :: content_index
  defines "ch \<equiv> snd (discover_all B (Some A))"
    and "KA \<equiv> set (map fst (stories A))"
    and "KB \<equiv> set (map fst (stories B))"
  shows "set (added ch) = KB - KA
    \<and> set (deleted ch) = KA - KB
    \<and> set (modified ch) = {k \<in> KA \<inter> KB. hash_of (stories B) k \<noteq> hash_of (stories A) k}
    \<and> set (added ch) \<inter> set (modified ch) = {}
    \<and> set (added ch) \<inter> set (deleted ch) = {}
    \<and> set (modified ch) \<inter> set (deleted ch) = {}
    \<and> set (added ch) \<union> set (modified ch) \<union> set (deleted ch)
        = (KA \<union> KB) - {k \<in> KA \<inter> KB. hash_of (stories B) k = hash_of (stories A) k}"
  unfolding ch_def KA_def KB_def discover_all_def
  by (auto simp: Let_def)

section \<open>Planning\<close>

text \<open>
  The claim as stated fails for a modified story that has no tracker issue id: the
  planned operation is an \<open>update\<close> with \<open>issue_id = None\<close>, not a \<open>create\<close>.
\<close>

theorem story_action_counterexample:
  "get_issue_id
     \<lparr>content_index_file = None, sync_state_file = None, number_registry_file = None,
      hierarchy_file = None, sync_report_file = None, pre_sync_backups = []\<rparr> ''1-1-a'' = None
   \<and> build_operations
     \<lparr>dry_run = True, create_only = False, update_only = False, engine_team = Some ''RAE'',
      engine_project = None,
      mapper = \<lparr>story_bmad_to_linear = [], story_linear_to_bmad = [], epic_bmad_to_linear = [],
                epic_linear_to_bmad = [], strict_mode = False, todo_to_bmad_logic = []\<rparr>,
      team_prefix = Some ''RAE''\<rparr>
     \<lparr>content_index_file = None, sync_state_file = None, number_registry_file = None,
      hierarchy_file = None, sync_report_file = None, pre_sync_backups = []\<rparr>
     []
     (Some \<lparr>last_scan = None, epics = [],
        stories = [(''1-1-a'', \<lparr>entry_file = None, entry_hash = Some ''h1'',
                     entry_title = None, entry_status = None, entry_epic = None,
                     entry_story = None\<rparr>)]\<rparr>)
     \<lparr>last_scan = None, epics = [],
        stories = [(''1-1-a'', \<lparr>entry_file = None, entry_hash = Some ''h2'',
                     entry_title = None, entry_status = None, entry_epic = None,
                     entry_story = None\<rparr>)]\<rparr>
   = [\<lparr>op_action = ''update'', op_content_key = ''1-1-a'', op_content_type = ''story'',
       op_reason = ''modified'', op_title = None, op_previous_hash = Some ''h1'',
       op_current_hash = Some ''h2'', op_issue_id = None, op_state = None,
       op_project = None, op_team = Some ''RAE'', op_labels = None\<rparr>]"
proof -
  have l: "lower (strip []) = []" by code_simp
  show ?thesis
    by (simp add: get_issue_id_def load_hierarchy_def get_linear_id_def
        create_empty_hierarchy_def truthy_def build_operations_def List.map_filter_def
        story_operation_def change_reason_def determine_action_def hash_of_def
        bmad_to_linear_state_def story_labels_def l)
qed

lemma story_operation_action:
  assumes "story_operation eng st prev item = Some x"
  shows "op_content_type x = ''story'' \<and> op_content_key x = fst item
    \<and> op_issue_id x = get_issue_id st (fst item)
    \<and> (op_action x = ''create'' \<longleftrightarrow> fst item \<notin> set (map fst prev))
    \<and> (op_action x = ''update'' \<longleftrightarrow>
          fst item \<in> set (map fst prev) \<and> hash_of prev (fst item) \<noteq> entry_hash (snd item))"
proof -
  obtain key cur_meta where item: "item = (key, cur_meta)" by (cases item)
  have none: "map_of prev key = None \<longleftrightarrow> key \<notin> set (map fst prev)"
    by (simp add: map_of_eq_None_iff)
  show ?thesis
  proof (cases "map_of prev key")
    case None
    with assms item none show ?thesis
      by (auto simp: story_operation_def change_reason_def determine_action_def Let_def
          split: if_splits)
  next
    case (Some prev_meta)
    with none have "key \<in> set (map fst prev)" by simp
    with assms item Some show ?thesis
      by (auto simp: story_operation_def change_reason_def determine_action_def Let_def
          hash_of_def split: if_splits)
  qed
qed

lemma epic_operation_type:
  "epic_operation eng st ssm prev item = Some x \<Longrightarrow> op_content_type x = ''epic''"
  by (cases item)
     (auto simp: epic_operation_def Let_def split: option.splits if_splits)

text \<open>
  C1 as amended. For every story operation that \<open>build_operations\<close> plans, the action
  is \<open>create\<close> exactly when the story's key is not in the previous index, and
  \<open>update\<close> exactly when it is there with another hash; the tracker issue id
  registered for the key is copied into the operation and does not decide the action.
\<close>

theorem story_action_by_previous_index:
  assumes "x \<in> set (build_operations eng st ssm previous_index new_index)"
    and "op_content_type x = ''story''"
  defines "prev \<equiv> (case previous_index of None \<Rightarrow> [] | Some p \<Rightarrow> stories p)"
  shows "op_issue_id x = get_issue_id st (op_content_key x)
    \<and> (op_action x = ''create'' \<longleftrightarrow> op_content_key x \<notin> set (map fst prev))
    \<and> (op_action x = ''update'' \<longleftrightarrow>
          op_content_key x \<in> set (map fst prev) \<and>
          hash_of prev (op_content_key x) \<noteq> op_current_hash x)"
proof -
  let ?prev_epics = "case previous_index of None \<Rightarrow> [] | Some p \<Rightarrow> epics p"
  from assms(1) have "(\<exists>item. story_operation eng st prev item = Some x)
      \<or> (\<exists>item. epic_operation eng st ssm ?prev_epics item = Some x)"
    by (auto simp: build_operations_def List.map_filter_def prev_def Let_def)
  moreover have "op_content_type x \<noteq> ''story''"
    if "epic_operation eng st ssm ?prev_epics item = Some x" for item
    using epic_operation_type [OF that] by simp
  ultimately obtain item where s: "story_operation eng st prev item = Some x"
    using assms(2) by blast
  have "op_current_hash x = entry_hash (snd item)"
    using s by (cases item)
      (auto simp: story_operation_def Let_def split: option.splits if_splits)
  with story_operation_action [OF s] show ?thesis by simp
qed

text \<open>
  A story that is new to the index but already has a tracker issue: the action is
  \<open>create\<close>, and the operation carries the registered id.
\<close>

theorem story_action_by_previous_index_witness:
  "\<lparr>op_action = ''create'', op_content_key = ''1-1-a'', op_content_type = ''story'',
     op_reason = ''added'', op_title = None, op_previous_hash = None,
     op_current_hash = Some ''h2'', op_issue_id = Some ''RAE-361'', op_state = None,
     op_project = None, op_team = Some ''RAE'', op_labels = None\<rparr>
   \<in> set (build_operations
     \<lparr>dry_run = True, create_only = False, update_only = False, engine_team = Some ''RAE'',
      engine_project = None,
      mapper = \<lparr>story_bmad_to_linear = [], story_linear_to_bmad = [], epic_bmad_to_linear = [],
                epic_linear_to_bmad = [], strict_mode = False, todo_to_bmad_logic = []\<rparr>,
      team_prefix = Some ''RAE''\<rparr>
     \<lparr>content_index_file = None, sync_state_file = None, number_registry_file = None,
      hierarchy_file = Some \<lparr>relationships = [], children = [], linear_epics = [],
                             linear_stories = [(''1-1-a'', ''RAE-361'')]\<rparr>,
      sync_report_file = None, pre_sync_backups = []\<rparr>
     []
     (Some \<lparr>last_scan = None, epics = [], stories = []\<rparr>)
     \<lparr>last_scan = None, epics = [],
        stories = [(''1-1-a'', \<lparr>entry_file = None, entry_hash = Some ''h2'',
                     entry_title = None, entry_status = None, entry_epic = None,
                     entry_story = None\<rparr>)]\<rparr>)
   \<and> get_issue_id
     \<lparr>content_index_file = None, sync_state_file = None, number_registry_file = None,
      hierarchy_file = Some \<lparr>relationships = [], children = [], linear_epics = [],
                             linear_stories = [(''1-1-a'', ''RAE-361'')]\<rparr>,
      sync_report_file = None, pre_sync_backups = []\<rparr> ''1-1-a'' = Some ''RAE-361''
   \<and> ''1-1-a'' \<notin> set (map fst (stories \<lparr>last_scan = None, epics = [], stories = []\<rparr>))"
proof -
  let ?x = "\<lparr>op_action = ''create'', op_content_key = ''1-1-a'', op_content_type = ''story'',
     op_reason = ''added'', op_title = None, op_previous_hash = None,
     op_current_hash = Some ''h2'', op_issue_id = Some ''RAE-361'', op_state = None,
     op_project = None, op_team = Some ''RAE'', op_labels = None\<rparr>"
  let ?eng = "\<lparr>dry_run = True, create_only = False, update_only = False, engine_team = Some ''RAE'',
      engine_project = None,
      mapper = \<lparr>story_bmad_to_linear = [], story_linear_to_bmad = [], epic_bmad_to_linear = [],
                epic_linear_to_bmad = [], strict_mode = False, todo_to_bmad_logic = []\<rparr>,
      team_prefix = Some ''RAE''\<rparr>"
  let ?st = "\<lparr>content_index_file = None, sync_state_file = None, number_registry_file = None,
      hierarchy_file = Some \<lparr>relationships = [], children = [], linear_epics = [],
                             linear_stories = [(''1-1-a'', ''RAE-361'')]\<rparr>,
      sync_report_file = None, pre_sync_backups = []\<rparr>"
  let ?prev = "Some \<lparr>last_scan = None, epics = [], stories = []\<rparr>"
  let ?new = "\<lparr>last_scan = None, epics = [],
        stories = [(''1-1-a'', \<lparr>entry_file = None, entry_hash = Some ''h2'',
                     entry_title = None, entry_status = None, entry_epic = None,
                     entry_story = None\<rparr>)]\<rparr>"
  have l: "lower (strip []) = []" by code_simp
  have ops: "build_operations ?eng ?st [] ?prev ?new = [?x]"
    by (simp add: get_issue_id_def load_hierarchy_def get_linear_id_def
        truthy_def build_operations_def List.map_filter_def
        story_operation_def change_reason_def determine_action_def hash_of_def
        bmad_to_linear_state_def story_labels_def l)
  then have mem: "?x \<in> set (build_operations ?eng ?st [] ?prev ?new)" by simp
  from story_action_by_previous_index [OF mem]
  have "op_issue_id ?x = get_issue_id ?st (op_content_key ?x)
    \<and> (op_action ?x = ''create'' \<longleftrightarrow> op_content_key ?x \<notin> set (map fst (stories (the ?prev))))"
    by simp
  with mem show ?thesis by simp
qed

section \<open>Repeated sync\<close>

lemma get_issue_id_write_report: "get_issue_id (write_report now ops st) = get_issue_id st"
  by (rule ext) (simp add: get_issue_id_def write_report_def load_hierarchy_def)

lemma build_operations_store:
  assumes "get_issue_id st' = get_issue_id st"
  shows "build_operations eng st' ssm prev new = build_operations eng st ssm prev new"
proof -
  have g: "get_issue_id st' k = get_issue_id st k" for k
    using assms by simp
  have "story_operation eng st' p = story_operation eng st p" for p
    by (intro ext) (simp add: story_operation_def g Let_def split: prod.splits option.splits)
  moreover have "epic_operation eng st' ssm p = epic_operation eng st ssm p" for p
    by (intro ext) (simp add: epic_operation_def g Let_def split: prod.splits option.splits)
  ultimately show ?thesis by (simp add: build_operations_def)
qed

lemma build_operations_scan:
  "stories new' = stories new \<Longrightarrow> epics new' = epics new \<Longrightarrow>
     build_operations eng st ssm prev new' = build_operations eng st ssm prev new"
  by (simp add: build_operations_def)

lemma unchanged_no_operation:
  assumes "\<forall>(k, e) \<in> set cur. k \<in> set (map fst prev) \<and> hash_of prev k = entry_hash e"
  shows "\<forall>item \<in> set cur. change_reason prev (fst item) (snd item) = None"
proof
  fix item assume i: "item \<in> set cur"
  obtain k e where item: "item = (k, e)" by (cases item)
  with assms i have k: "k \<in> set (map fst prev)" and h: "hash_of prev k = entry_hash e" by auto
  from k obtain pm where "map_of prev k = Some pm"
    by (metis map_of_eq_None_iff not_Some_eq set_map)
  with h item show "change_reason prev (fst item) (snd item) = None"
    by (simp add: change_reason_def hash_of_def)
qed

lemma map_filter_none: "\<forall>x \<in> set xs. f x = None \<Longrightarrow> List.map_filter f xs = []"
  by (induction xs) (auto simp: List.map_filter_def)

text \<open>
  The claim as stated fails on a project whose content index is the empty one that the
  state manager creates, with one story on disk: the first \<open>sync\<close> plans one
  \<open>create\<close>, writes its report and leaves \<open>content_index.json\<close> as it was, so the
  second \<open>sync\<close> plans the same \<open>create\<close> again.
\<close>

theorem idempotent_sync_counterexample:
  "plan_summary (fst (sync
     \<lparr>dry_run = True, create_only = False, update_only = False, engine_team = Some ''RAE'',
      engine_project = None,
      mapper = \<lparr>story_bmad_to_linear = [], story_linear_to_bmad = [], epic_bmad_to_linear = [],
                epic_linear_to_bmad = [], strict_mode = False, todo_to_bmad_logic = []\<rparr>,
      team_prefix = Some ''RAE''\<rparr>
     []
     \<lparr>last_scan = Some ''t2'', epics = [],
      stories = [(''1-1-a'', \<lparr>entry_file = None, entry_hash = Some ''h1'',
                   entry_title = None, entry_status = None, entry_epic = None,
                   entry_story = None\<rparr>)]\<rparr>
     ''t2'' False
     (snd (sync
       \<lparr>dry_run = True, create_only = False, update_only = False, engine_team = Some ''RAE'',
        engine_project = None,
        mapper = \<lparr>story_bmad_to_linear = [], story_linear_to_bmad = [], epic_bmad_to_linear = [],
                  epic_linear_to_bmad = [], strict_mode = False, todo_to_bmad_logic = []\<rparr>,
        team_prefix = Some ''RAE''\<rparr>
       []
       \<lparr>last_scan = Some ''t1'', epics = [],
        stories = [(''1-1-a'', \<lparr>entry_file = None, entry_hash = Some ''h1'',
                     entry_title = None, entry_status = None, entry_epic = None,
                     entry_story = None\<rparr>)]\<rparr>
       ''t1'' False
       \<lparr>content_index_file = Some \<lparr>last_scan = None, epics = [], stories = []\<rparr>,
        sync_state_file = None, number_registry_file = None,
        hierarchy_file = None, sync_report_file = None, pre_sync_backups = []\<rparr>))))
   = \<lparr>n_total = 1, n_create = 1, n_update = 0\<rparr>"
proof -
  let ?eng = "\<lparr>dry_run = True, create_only = False, update_only = False, engine_team = Some ''RAE'',
      engine_project = None,
      mapper = \<lparr>story_bmad_to_linear = [], story_linear_to_bmad = [], epic_bmad_to_linear = [],
                epic_linear_to_bmad = [], strict_mode = False, todo_to_bmad_logic = []\<rparr>,
      team_prefix = Some ''RAE''\<rparr>"
  let ?entry = "\<lparr>entry_file = None, entry_hash = Some ''h1'',
                   entry_title = None, entry_status = None, entry_epic = None,
                   entry_story = None\<rparr>"
  let ?scan1 = "\<lparr>last_scan = Some ''t1'', epics = [], stories = [(''1-1-a'', ?entry)]\<rparr>"
  let ?scan2 = "\<lparr>last_scan = Some ''t2'', epics = [], stories = [(''1-1-a'', ?entry)]\<rparr>"
  let ?idx = "\<lparr>last_scan = None, epics = [], stories = []\<rparr>"
  let ?st = "\<lparr>content_index_file = Some ?idx,
        sync_state_file = None, number_registry_file = None,
        hierarchy_file = None, sync_report_file = None, pre_sync_backups = []\<rparr>"
  define st1 where "st1 = snd (sync ?eng [] ?scan1 ''t1'' False ?st)"
  have l: "lower (strip []) = []" by code_simp
  have g: "get_issue_id st1 = get_issue_id ?st"
    by (simp add: st1_def sync_def Let_def get_issue_id_write_report)
  have c: "content_index_file st1 = Some ?idx"
    by (simp add: st1_def sync_def Let_def write_report_def)
  have "plan_summary (fst (sync ?eng [] ?scan2 ''t2'' False st1))
      = summarize (build_operations ?eng st1 [] (Some ?idx) ?scan2)"
    by (simp add: sync_def Let_def c discover_all_def)
  also have "\<dots> = summarize (build_operations ?eng ?st [] (Some ?idx) ?scan2)"
    using build_operations_store [OF g] by simp
  also have "\<dots> = \<lparr>n_total = 1, n_create = 1, n_update = 0\<rparr>"
    by (simp add: summarize_def get_issue_id_def load_hierarchy_def get_linear_id_def
        create_empty_hierarchy_def truthy_def build_operations_def List.map_filter_def
        story_operation_def change_reason_def determine_action_def hash_of_def
        bmad_to_linear_state_def story_labels_def l)
  finally show ?thesis unfolding st1_def .
qed

text \<open>
  C3 as amended. \<open>sync\<close> writes the report and leaves the content index and the
  registered issue ids as they are, so a second \<open>sync\<close> over the same files (the
  scans agree on stories and epics) returns the summary of the first one. That summary
  is \<open>{create: 0, update: 0}\<close> when \<open>force_refresh\<close> is off and every story and
  epic of the scan is in \<open>content_index.json\<close> with the same hash.
\<close>

theorem sync_twice_same_summary:
  fixes st :: store and eng :: SyncEngine and ssm :: "(string, string) dict"
    and scan scan' :: content_index and now now' :: string and force_refresh :: bool
  defines "first \<equiv> sync eng ssm scan now force_refresh st"
  defines "second \<equiv> sync eng ssm scan' now' force_refresh (snd first)"
  assumes same: "stories scan' = stories scan" "epics scan' = epics scan"
  shows "plan_summary (fst second) = plan_summary (fst first)
    \<and> (\<not> force_refresh \<and> content_index_file st = Some idx \<and>
        (\<forall>(k, e) \<in> set (stories scan).
            k \<in> set (map fst (stories idx)) \<and> hash_of (stories idx) k = entry_hash e) \<and>
        (\<forall>(k, e) \<in> set (epics scan).
            k \<in> set (map fst (epics idx)) \<and> hash_of (epics idx) k = entry_hash e)
        \<longrightarrow> plan_summary (fst second) = \<lparr>n_total = 0, n_create = 0, n_update = 0\<rparr>)"
proof -
  have ci: "content_index_file (snd first) = content_index_file st"
    by (simp add: first_def sync_def write_report_def Let_def)
  have gi: "get_issue_id (snd first) = get_issue_id st"
    by (simp add: first_def sync_def Let_def get_issue_id_write_report)
  let ?prev = "if \<not> force_refresh then content_index_file st else None"
  have f: "plan_operations (fst first) = build_operations eng st ssm ?prev scan"
    by (simp add: first_def sync_def Let_def discover_all_def split: option.splits)
  have "plan_operations (fst second) = build_operations eng (snd first) ssm ?prev scan'"
    by (simp add: second_def sync_def Let_def discover_all_def ci split: option.splits)
  also have "\<dots> = build_operations eng st ssm ?prev scan"
    using build_operations_store [OF gi] build_operations_scan [OF same] by simp
  finally have ops: "plan_operations (fst second) = plan_operations (fst first)"
    using f by simp
  have s1: "plan_summary (fst first) = summarize (plan_operations (fst first))"
    by (simp add: first_def sync_def Let_def)
  have s2: "plan_summary (fst second) = summarize (plan_operations (fst second))"
    by (simp add: second_def sync_def Let_def)
  have eq: "plan_summary (fst second) = plan_summary (fst first)"
    using ops s1 s2 by simp
  have zero: "plan_summary (fst second) = \<lparr>n_total = 0, n_create = 0, n_update = 0\<rparr>"
    if fr: "\<not> force_refresh" and idx: "content_index_file st = Some idx"
      and us: "\<forall>(k, e) \<in> set (stories scan).
            k \<in> set (map fst (stories idx)) \<and> hash_of (stories idx) k = entry_hash e"
      and ue: "\<forall>(k, e) \<in> set (epics scan).
            k \<in> set (map fst (epics idx)) \<and> hash_of (epics idx) k = entry_hash e"
  proof -
    have "List.map_filter (story_operation eng st (stories idx)) (stories scan) = []"
      using unchanged_no_operation [OF us]
      by (intro map_filter_none) (auto simp: story_operation_def)
    moreover have "List.map_filter (epic_operation eng st ssm (epics idx)) (epics scan) = []"
      using unchanged_no_operation [OF ue]
      by (intro map_filter_none) (auto simp: epic_operation_def)
    ultimately have "plan_operations (fst first) = []"
      using f fr idx by (simp add: build_operations_def)
    with eq s1 show ?thesis by (simp add: summarize_def)
  qed
  from eq zero show ?thesis by blast
qed

text \<open>
  A project whose content index already records the one story on disk with its hash:
  both runs plan nothing.
\<close>

theorem sync_twice_same_summary_witness:
  "plan_summary (fst (sync
     \<lparr>dry_run = True, create_only = False, update_only = False, engine_team = Some ''RAE'',
      engine_project = None,
      mapper = \<lparr>story_bmad_to_linear = [], story_linear_to_bmad = [], epic_bmad_to_linear = [],
                epic_linear_to_bmad = [], strict_mode = False, todo_to_bmad_logic = []\<rparr>,
      team_prefix = Some ''RAE''\<rparr>
     []
     \<lparr>last_scan = Some ''t2'', epics = [],
      stories = [(''1-1-a'', \<lparr>entry_file = None, entry_hash = Some ''h1'',
                   entry_title = None, entry_status = None, entry_epic = None,
                   entry_story = None\<rparr>)]\<rparr>
     ''t2'' False
     (snd (sync
       \<lparr>dry_run = True, create_only = False, update_only = False, engine_team = Some ''RAE'',
        engine_project = None,
        mapper = \<lparr>story_bmad_to_linear = [], story_linear_to_bmad = [], epic_bmad_to_linear = [],
                  epic_linear_to_bmad = [], strict_mode = False, todo_to_bmad_logic = []\<rparr>,
        team_prefix = Some ''RAE''\<rparr>
       []
       \<lparr>last_scan = Some ''t1'', epics = [],
        stories = [(''1-1-a'', \<lparr>entry_file = None, entry_hash = Some ''h1'',
                     entry_title = None, entry_status = None, entry_epic = None,
                     entry_story = None\<rparr>)]\<rparr>
       ''t1'' False
       \<lparr>content_index_file = Some \<lparr>last_scan = Some ''t0'', epics = [],
          stories = [(''1-1-a'', \<lparr>entry_file = None, entry_hash = Some ''h1'',
                       entry_title = None, entry_status = None, entry_epic = None,
                       entry_story = None\<rparr>)]\<rparr>,
        sync_state_file = None, number_registry_file = None,
        hierarchy_file = None, sync_report_file = None, pre_sync_backups = []\<rparr>))))
   = \<lparr>n_total = 0, n_create = 0, n_update = 0\<rparr>"
proof -
  let ?eng = "\<lparr>dry_run = True, create_only = False, update_only = False, engine_team = Some ''RAE'',
      engine_project = None,
      mapper = \<lparr>story_bmad_to_linear = [], story_linear_to_bmad = [], epic_bmad_to_linear = [],
                epic_linear_to_bmad = [], strict_mode = False, todo_to_bmad_logic = []\<rparr>,
      team_prefix = Some ''RAE''\<rparr>"
  let ?entry = "\<lparr>entry_file = None, entry_hash = Some ''h1'',
                   entry_title = None, entry_status = None, entry_epic = None,
                   entry_story = None\<rparr>"
  let ?scan1 = "\<lparr>last_scan = Some ''t1'', epics = [], stories = [(''1-1-a'', ?entry)]\<rparr>"
  let ?scan2 = "\<lparr>last_scan = Some ''t2'', epics = [], stories = [(''1-1-a'', ?entry)]\<rparr>"
  let ?idx = "\<lparr>last_scan = Some ''t0'', epics = [], stories = [(''1-1-a'', ?entry)]\<rparr>"
  let ?st = "\<lparr>content_index_file = Some ?idx,
        sync_state_file = None, number_registry_file = None,
        hierarchy_file = None, sync_report_file = None, pre_sync_backups = []\<rparr>"
  have same: "stories ?scan2 = stories ?scan1" "epics ?scan2 = epics ?scan1" by simp_all
  have hyp: "\<not> False \<and> content_index_file ?st = Some ?idx \<and>
        (\<forall>(k, e) \<in> set (stories ?scan1).
            k \<in> set (map fst (stories ?idx)) \<and> hash_of (stories ?idx) k = entry_hash e) \<and>
        (\<forall>(k, e) \<in> set (epics ?scan1).
            k \<in> set (map fst (epics ?idx)) \<and> hash_of (epics ?idx) k = entry_hash e)"
    by (simp add: hash_of_def)
  from sync_twice_same_summary [OF same, where eng = ?eng and ssm = "[]" and now = "''t1''"
      and now' = "''t2''" and force_refresh = False and st = ?st and idx = ?idx,
      THEN conjunct2, rule_format, OF hyp]
  show ?thesis .
qed

section \<open>Content normalisation\<close>

lemma linebreak_is_space: "py_islinebreak c \<Longrightarrow> py_isspace c"
  by (auto simp: py_islinebreak_def py_isspace_def Let_def)

lemma LF_linebreak [simp]: "py_islinebreak LF" "py_isspace LF" "LF \<noteq> CR" "py_islinebreak CR"
  by (simp_all add: py_islinebreak_def py_isspace_def LF_def CR_def)

lemma dropWhile_hd: "xs \<noteq> [] \<Longrightarrow> \<not> P (hd xs) \<Longrightarrow> dropWhile P xs = xs"
  by (cases xs) auto

lemma strip_stripped: "stripped (strip s)"
proof (cases "strip s = []")
  case True
  then show ?thesis by (simp add: stripped_def)
next
  case False
  define t where "t = dropWhile py_isspace s"
  define u where "u = dropWhile py_isspace (rev t)"
  have s: "strip s = rev u" by (simp add: strip_def t_def u_def)
  with False have u: "u \<noteq> []" by simp
  then have l: "\<not> py_isspace (hd u)" unfolding u_def by (rule hd_dropWhile)
  have "rev t = takeWhile py_isspace (rev t) @ u"
    unfolding u_def by (rule takeWhile_dropWhile_id [symmetric])
  then have "rev (rev t) = rev (takeWhile py_isspace (rev t) @ u)" by (rule arg_cong)
  then have t: "t = rev u @ rev (takeWhile py_isspace (rev t))"
    by (simp only: rev_append rev_rev_ident)
  from u have ru: "rev u \<noteq> []" by simp
  then have "hd (rev u @ rev (takeWhile py_isspace (rev t))) = hd (rev u)" by (rule hd_append2)
  with t have h: "hd t = hd (rev u)" by simp
  from t ru have "t \<noteq> []" by (cases t) auto
  then have "\<not> py_isspace (hd t)" unfolding t_def by (rule hd_dropWhile)
  with h have "\<not> py_isspace (hd (rev u))" by simp
  moreover from l u have "\<not> py_isspace (last (rev u))" by (simp add: last_rev)
  ultimately show ?thesis by (simp add: stripped_def s)
qed

lemma strip_id: "stripped s \<Longrightarrow> strip s = s"
proof (cases "s = []")
  case True
  then show ?thesis by (simp add: strip_def)
next
  case False
  assume "stripped s"
  with False have h: "\<not> py_isspace (hd s)" and l: "\<not> py_isspace (last s)"
    by (auto simp: stripped_def)
  from False h have "dropWhile py_isspace s = s" by (rule dropWhile_hd)
  moreover from False l have "dropWhile py_isspace (rev s) = rev s"
    by (intro dropWhile_hd) (simp_all add: hd_rev)
  ultimately show ?thesis by (simp add: strip_def)
qed

lemma set_strip: "set (strip s) \<subseteq> set s"
proof -
  have "set (strip s) \<subseteq> set (rev (dropWhile py_isspace s))"
    unfolding strip_def set_rev by (auto dest: set_dropWhileD)
  also have "\<dots> \<subseteq> set s" by (auto dest: set_dropWhileD)
  finally show ?thesis .
qed

lemma strip_no_breaks: "no_breaks s \<Longrightarrow> no_breaks (strip s)"
  using set_strip by (auto simp: no_breaks_def)

lemma splitlines_no_breaks: "l \<in> set (splitlines s) \<Longrightarrow> no_breaks l"
proof (induction s arbitrary: l rule: splitlines.induct)
  case (1 s)
  have tw: "no_breaks (takeWhile (\<lambda>c. \<not> py_islinebreak c) s)"
    by (auto simp: no_breaks_def dest: set_takeWhileD)
  show ?case
  proof (cases "s = []")
    case True
    with "1.prems" show ?thesis by (simp add: splitlines.simps)
  next
    case False
    show ?thesis
    proof (cases "dropWhile (\<lambda>c. \<not> py_islinebreak c) s")
      case Nil
      with False "1.prems" tw show ?thesis
        by (subst (asm) splitlines.simps) (simp add: Let_def)
    next
      case (Cons c r)
      with False "1.prems" have "l = takeWhile (\<lambda>c. \<not> py_islinebreak c) s
          \<or> l \<in> set (splitlines (if c = CR \<and> r \<noteq> [] \<and> hd r = LF then tl r else r))"
        by (subst (asm) splitlines.simps) (simp add: Let_def)
      with tw "1.IH" [OF False refl refl Cons] show ?thesis by blast
    qed
  qed
qed

lemma join_lines_Cons: "bs \<noteq> [] \<Longrightarrow> join_lines (l # bs) = l @ LF # join_lines bs"
  by (cases bs) auto

lemma join_lines_append:
  "join_lines (as @ bs) =
     (if as = [] then join_lines bs else if bs = [] then join_lines as
      else join_lines as @ LF # join_lines bs)"
  by (induction as rule: join_lines.induct) (auto simp: join_lines_Cons)

lemma rev_join_lines: "rev (join_lines ls) = join_lines (rev (map rev ls))"
  by (induction ls rule: join_lines.induct) (auto simp: join_lines_append)

lemma dropWhile_join_lines:
  "\<forall>l \<in> set ls. l = [] \<or> \<not> py_isspace (hd l) \<Longrightarrow>
     dropWhile py_isspace (join_lines ls) = join_lines (dropWhile (\<lambda>l. l = []) ls)"
proof (induction ls rule: join_lines.induct)
  case 1
  then show ?case by simp
next
  case (2 l)
  then show ?case by (cases l) auto
next
  case (3 l m ls)
  then show ?case by (cases l) auto
qed

lemma strip_join_lines:
  assumes "\<forall>l \<in> set ls. stripped l"
  shows "strip (join_lines ls) = join_lines (trim_empty ls)"
proof -
  let ?null = "\<lambda>l::string. l = []"
  let ?l1 = "dropWhile ?null ls"
  have a: "dropWhile py_isspace (join_lines ls) = join_lines ?l1"
    using assms by (intro dropWhile_join_lines) (auto simp: stripped_def)
  have "\<forall>l \<in> set (rev (map rev ?l1)). l = [] \<or> \<not> py_isspace (hd l)"
    using assms by (auto simp: stripped_def hd_rev dest!: set_dropWhileD)
  then have b: "dropWhile py_isspace (join_lines (rev (map rev ?l1)))
      = join_lines (dropWhile ?null (rev (map rev ?l1)))"
    by (rule dropWhile_join_lines)
  have c: "dropWhile ?null (rev (map rev ?l1)) = map rev (dropWhile ?null (rev ?l1))"
    by (simp add: rev_map dropWhile_map comp_def)
  have "strip (join_lines ls) = rev (dropWhile py_isspace (rev (join_lines ?l1)))"
    by (simp add: strip_def a)
  also have "\<dots> = rev (join_lines (map rev (dropWhile ?null (rev ?l1))))"
    by (simp only: rev_join_lines b c)
  also have "\<dots> = join_lines (trim_empty ls)"
    by (simp add: rev_join_lines trim_empty_def rev_map comp_def)
  finally show ?thesis .
qed

lemma splitlines_plain: "l \<noteq> [] \<Longrightarrow> no_breaks l \<Longrightarrow> splitlines l = [l]"
proof -
  assume l: "l \<noteq> []" and n: "no_breaks l"
  from n have tw: "takeWhile (\<lambda>c. \<not> py_islinebreak c) l = l"
    and dw: "dropWhile (\<lambda>c. \<not> py_islinebreak c) l = []"
    by (auto simp: no_breaks_def)
  show ?thesis by (subst splitlines.simps) (simp add: tw dw l Let_def)
qed

lemma splitlines_line:
  assumes n: "no_breaks l"
  shows "splitlines (l @ LF # rest) = l # splitlines rest"
proof -
  have tw: "takeWhile (\<lambda>c. \<not> py_islinebreak c) (l @ LF # rest) = l"
    using n by (simp add: no_breaks_def takeWhile_append2)
  have dw: "dropWhile (\<lambda>c. \<not> py_islinebreak c) (l @ LF # rest) = LF # rest"
    using n by (simp add: no_breaks_def dropWhile_append2)
  show ?thesis by (subst splitlines.simps) (simp add: tw dw Let_def)
qed

lemma splitlines_join_lines:
  "\<forall>l \<in> set ls. no_breaks l \<Longrightarrow> ls = [] \<or> last ls \<noteq> [] \<Longrightarrow>
     splitlines (join_lines ls) = ls"
proof (induction ls rule: join_lines.induct)
  case 1
  then show ?case by (simp add: splitlines.simps)
next
  case (2 l)
  then show ?case by (simp add: splitlines_plain)
next
  case (3 l m ls)
  then show ?case by (simp add: splitlines_line)
qed

lemma str_replace_absent:
  "old \<noteq> [] \<Longrightarrow> hd old \<notin> set s \<Longrightarrow> str_replace old new s = s"
proof (induction s)
  case Nil
  then show ?case by simp
next
  case (Cons c cs)
  from Cons.prems have "take (length old) (c # cs) \<noteq> old"
    by (cases old) auto
  with Cons show ?case by simp
qed

lemma set_join_lines: "set (join_lines ls) \<subseteq> insert LF (\<Union> (set ` set ls))"
  by (induction ls rule: join_lines.induct) auto

lemma join_lines_no_CR:
  assumes "\<forall>l \<in> set ls. no_breaks l"
  shows "CR \<notin> set (join_lines ls)"
proof
  assume "CR \<in> set (join_lines ls)"
  with set_join_lines [of ls] have "CR = LF \<or> (\<exists>l \<in> set ls. CR \<in> set l)" by auto
  moreover have "CR \<noteq> LF" by (simp add: CR_def LF_def)
  moreover have "CR \<notin> set l" if "l \<in> set ls" for l
  proof
    assume c: "CR \<in> set l"
    from assms that have "\<forall>c \<in> set l. \<not> py_islinebreak c"
      by (simp add: no_breaks_def)
    from bspec [OF this c] have "\<not> py_islinebreak CR" .
    then show False by (simp add: py_islinebreak_def CR_def)
  qed
  ultimately show False by blast
qed

lemma trim_empty_subset: "set (trim_empty ls) \<subseteq> set ls"
  by (auto simp: trim_empty_def dest!: set_dropWhileD)

lemma trim_empty_last: "trim_empty ls = [] \<or> last (trim_empty ls) \<noteq> []"
proof (cases "trim_empty ls = []")
  case True
  then show ?thesis ..
next
  case False
  let ?d = "dropWhile (\<lambda>l. l = []) (rev (dropWhile (\<lambda>l. l = []) ls))"
  from False have d: "?d \<noteq> []" by (simp add: trim_empty_def)
  then have "hd ?d \<noteq> []" by (rule hd_dropWhile)
  with d show ?thesis by (simp add: trim_empty_def last_rev)
qed

lemma trim_empty_hd: "trim_empty ls = [] \<or> hd (trim_empty ls) \<noteq> []"
proof (cases "trim_empty ls = []")
  case True
  then show ?thesis ..
next
  case False
  define t where "t = dropWhile (\<lambda>l::string. l = []) ls"
  define u where "u = dropWhile (\<lambda>l::string. l = []) (rev t)"
  have e: "trim_empty ls = rev u" by (simp add: trim_empty_def t_def u_def)
  with False have u: "u \<noteq> []" by simp
  have "rev t = takeWhile (\<lambda>l. l = []) (rev t) @ u"
    unfolding u_def by (rule takeWhile_dropWhile_id [symmetric])
  then have "rev (rev t) = rev (takeWhile (\<lambda>l. l = []) (rev t) @ u)" by (rule arg_cong)
  then have t: "t = rev u @ rev (takeWhile (\<lambda>l. l = []) (rev t))"
    by (simp only: rev_append rev_rev_ident)
  from u have ru: "rev u \<noteq> []" by simp
  then have "hd (rev u @ rev (takeWhile (\<lambda>l. l = []) (rev t))) = hd (rev u)" by (rule hd_append2)
  with t have h: "hd t = hd (rev u)" by simp
  from t ru have "t \<noteq> []" by (cases t) auto
  then have "hd t \<noteq> []" unfolding t_def by (rule hd_dropWhile)
  with h e show ?thesis by simp
qed

lemma trim_empty_idem: "trim_empty (trim_empty ls) = trim_empty ls"
proof (cases "trim_empty ls = []")
  case True
  have "trim_empty [] = []" by (simp add: trim_empty_def)
  with True show ?thesis by (simp only:)
next
  case False
  define t where "t = trim_empty ls"
  from False trim_empty_hd [of ls] have "hd t \<noteq> []" by (simp add: t_def)
  with False have a: "dropWhile (\<lambda>l. l = []) t = t"
    unfolding t_def by (intro dropWhile_hd)
  from False trim_empty_last [of ls] have "last t \<noteq> []" by (simp add: t_def)
  with False have b: "dropWhile (\<lambda>l. l = []) (rev t) = rev t"
    unfolding t_def by (intro dropWhile_hd) (simp_all add: hd_rev)
  have "trim_empty t = rev (dropWhile (\<lambda>l. l = []) (rev (dropWhile (\<lambda>l. l = []) t)))"
    by (simp only: trim_empty_def)
  also have "\<dots> = t" by (simp only: a b rev_rev_ident)
  finally show ?thesis by (simp only: t_def)
qed

text \<open>A text that is a join of clean lines, the empty ones at both ends removed, is a fixed point.\<close>

lemma normalize_content_fixed:
  assumes clean: "\<forall>l \<in> set ls. stripped l \<and> no_breaks l"
  shows "normalize_content (join_lines (trim_empty ls)) = join_lines (trim_empty ls)"
proof -
  let ?t = "trim_empty ls"
  from clean trim_empty_subset [of ls]
  have ct: "\<forall>l \<in> set ?t. stripped l" and nt: "\<forall>l \<in> set ?t. no_breaks l" by auto
  from nt have cr: "CR \<notin> set (join_lines ?t)" by (rule join_lines_no_CR)
  then have r: "str_replace [CR] [LF] (str_replace [CR, LF] [LF] (join_lines ?t)) = join_lines ?t"
    by (simp add: str_replace_absent)
  have sp: "splitlines (join_lines ?t) = ?t"
    using nt trim_empty_last by (rule splitlines_join_lines)
  have ms: "map strip ?t = ?t"
    using ct by (simp add: map_idI strip_id)
  have "strip (join_lines ?t) = join_lines (trim_empty ?t)"
    using ct by (rule strip_join_lines)
  then have "strip (join_lines ?t) = join_lines ?t" by (simp add: trim_empty_idem)
  with r sp ms show ?thesis by (simp add: normalize_content_def)
qed

lemma normalize_content_shape:
  "\<exists>ls. (\<forall>l \<in> set ls. stripped l \<and> no_breaks l)
       \<and> normalize_content c = join_lines (trim_empty ls)"
proof -
  let ?ls = "map strip (splitlines (str_replace [CR] [LF] (str_replace [CR, LF] [LF] c)))"
  have "\<forall>l \<in> set ?ls. stripped l \<and> no_breaks l"
    by (auto simp: strip_stripped intro: strip_no_breaks splitlines_no_breaks)
  moreover from this have "normalize_content c = join_lines (trim_empty ?ls)"
    by (simp add: normalize_content_def strip_join_lines)
  ultimately show ?thesis by blast
qed

text \<open>
  C9. Normalising is idempotent, and the content hash is the SHA-256 digest of the
  encoded normalised text alone: contents with the same normalised form have the same
  hash, and a content and its normalised form have the same hash.
\<close>

theorem hash_stability:
  "normalize_content (normalize_content c) = normalize_content c
   \<and> compute_hash encode_utf8 sha256_hexdigest c
       = sha256_hexdigest (encode_utf8 (normalize_content c))
   \<and> compute_hash encode_utf8 sha256_hexdigest (normalize_content c)
       = compute_hash encode_utf8 sha256_hexdigest c
   \<and> (normalize_content c = normalize_content c' \<longrightarrow>
        compute_hash encode_utf8 sha256_hexdigest c = compute_hash encode_utf8 sha256_hexdigest c')"
proof -
  from normalize_content_shape [of c] obtain ls
    where "\<forall>l \<in> set ls. stripped l \<and> no_breaks l"
      and "normalize_content c = join_lines (trim_empty ls)" by blast
  then have "normalize_content (normalize_content c) = normalize_content c"
    using normalize_content_fixed by simp
  then show ?thesis by (simp add: compute_hash_def)
qed

text \<open>
  Two contents that differ in line endings and in white space at the ends of the
  lines: one normal form, one hash (the encoder and the digest are stand-ins).
\<close>

theorem hash_stability_witness:
  "normalize_content (''  a  '' @ [CR, LF] @ ''b '' @ [LF]) = ''a'' @ [LF] @ ''b''
   \<and> normalize_content (''a'' @ [LF] @ ''b'') = ''a'' @ [LF] @ ''b''
   \<and> compute_hash id rev (''  a  '' @ [CR, LF] @ ''b '' @ [LF])
       = compute_hash id rev (''a'' @ [LF] @ ''b'')"
proof -
  have a: "normalize_content (''  a  '' @ [CR, LF] @ ''b '' @ [LF]) = ''a'' @ [LF] @ ''b''"
    by code_simp
  have b: "normalize_content (''a'' @ [LF] @ ''b'') = ''a'' @ [LF] @ ''b''"
    by code_simp
  from hash_stability [of "''  a  '' @ [CR, LF] @ ''b '' @ [LF]" id rev "''a'' @ [LF] @ ''b''"] a b
  show ?thesis by simp
qed

section \<open>Snapshot and rollback\<close>

lemma map_of_dict_set: "map_of (dict_set k v d) k = Some v"
  by (induction d) auto

lemma backups_initialize_files [simp]:
  "pre_sync_backups (initialize_files st) = pre_sync_backups st"
  by (simp add: initialize_files_def)

lemma backups_register_issue [simp]:
  "pre_sync_backups (register_issue k i st) = pre_sync_backups st"
  by (simp add: register_issue_def Let_def split: option.splits)

lemma backups_record_mapping [simp]:
  "pre_sync_backups (record_mapping a b i t st) = pre_sync_backups st"
  by (simp add: record_mapping_def Let_def split: option.splits)

lemma backups_renumber_after_create [simp]:
  "pre_sync_backups (world_store (renumber_after_create eng int_ok now_iso x i w))
     = pre_sync_backups (world_store w)"
  by (simp add: renumber_after_create_def Let_def)

lemma backups_after_create:
  "pre_sync_backups (world_store (snd (after_create api eng int_ok now_iso x r w)))
     = pre_sync_backups (world_store w)"
  by (simp add: after_create_def Let_def)

lemma backups_apply_create:
  "pre_sync_backups (world_store (snd (apply_create api eng p int_ok now_iso x w)))
     = pre_sync_backups (world_store w)"
  by (simp add: apply_create_def Let_def backups_after_create split: prod.splits sum.splits)

lemma backups_apply_update:
  "pre_sync_backups (world_store (snd (apply_update api eng x w)))
     = pre_sync_backups (world_store w)"
  by (simp add: apply_update_def Let_def split: prod.splits sum.splits)

lemma backups_apply_operation:
  "pre_sync_backups (world_store (snd (apply_operation api eng p int_ok now_iso x w)))
     = pre_sync_backups (world_store w)"
  by (simp add: apply_operation_def backups_apply_create backups_apply_update)

lemma backups_apply_loop:
  "pre_sync_backups (world_store (snd (snd (snd (apply_loop api eng p int_ok now_iso xs (s, f, ms, w))))))
     = pre_sync_backups (world_store w)"
proof (induction xs arbitrary: s f ms w)
  case Nil
  show ?case by simp
next
  case (Cons x xs)
  obtain r w' where r: "apply_operation api eng p int_ok now_iso x w = (r, w')"
    by (cases "apply_operation api eng p int_ok now_iso x w")
  then have "pre_sync_backups (world_store w') = pre_sync_backups (world_store w)"
    using backups_apply_operation [of api eng p int_ok now_iso x w] by simp
  with r Cons.IH show ?case by (cases r) simp_all
qed

text \<open>
  C2 as amended. If \<open>apply\<close> reports a failed operation (so it was no dry run),
  then each of \<open>content_index.json\<close>, \<open>sync_state.json\<close> and
  \<open>number_registry.json\<close> that existed when the snapshot was taken has, after
  \<open>apply\<close> returns, the content it had then.
\<close>

theorem failed_apply_restores_snapshot:
  fixes api :: "'t wrapper" and w :: "'t world" and eng :: SyncEngine
    and project_id :: "string option" and int_ok :: "string \<Rightarrow> bool"
    and now_stamp now_iso :: string and operations :: "SyncOperation list"
  defines "r \<equiv> engine_apply api eng project_id int_ok now_stamp now_iso operations w"
  assumes failed: "0 < fst (snd (fst r))"
  shows "\<not> dry_run eng
    \<and> (content_index_file (world_store w) \<noteq> None \<longrightarrow>
         content_index_file (world_store (snd r)) = content_index_file (world_store w))
    \<and> (sync_state_file (world_store w) \<noteq> None \<longrightarrow>
         sync_state_file (world_store (snd r)) = sync_state_file (world_store w))
    \<and> (number_registry_file (world_store w) \<noteq> None \<longrightarrow>
         number_registry_file (world_store (snd r)) = number_registry_file (world_store w))"
proof -
  define w0 where "w0 = w\<lparr>world_store := backup_state now_stamp (world_store w)\<rparr>"
  define lr where "lr = apply_loop api eng (the project_id) int_ok now_iso operations (0, 0, [], w0)"
  define w1 where "w1 = snd (snd (snd lr))"
  from failed have dry: "\<not> dry_run eng"
    by (cases "dry_run eng") (simp_all add: r_def engine_apply_def)
  from failed dry have pid: "truthy project_id"
    by (cases "truthy project_id") (simp_all add: r_def engine_apply_def)
  from dry pid have unfolded: "r = (if fst (snd lr) > 0
      then ((fst lr, fst (snd lr),
             fst (snd (snd lr)) @ [''rollback: restored state from pre-sync backup due to failures'']),
            w1\<lparr>world_store := restore_state now_stamp (world_store w1)\<rparr>)
      else ((fst lr, fst (snd lr), fst (snd (snd lr))), w1))"
    by (simp add: r_def engine_apply_def Let_def w0_def lr_def w1_def)
  with failed have f: "fst (snd lr) > 0" by (auto split: if_splits)
  with unfolded have snd_r: "snd r = w1\<lparr>world_store := restore_state now_stamp (world_store w1)\<rparr>"
    by simp
  have "pre_sync_backups (world_store w1) = pre_sync_backups (world_store w0)"
    unfolding w1_def lr_def by (rule backups_apply_loop)
  then have saved: "map_of (pre_sync_backups (world_store w1)) now_stamp
      = map_of (pre_sync_backups (backup_state now_stamp (world_store w))) now_stamp"
    by (simp add: w0_def)
  have ci: "content_index_file (world_store (snd r)) = content_index_file (world_store w)"
    if "content_index_file (world_store w) \<noteq> None"
    using that unfolding snd_r
    by (auto simp: restore_state_def saved backup_state_def Let_def map_of_dict_set)
  have ss: "sync_state_file (world_store (snd r)) = sync_state_file (world_store w)"
    if "sync_state_file (world_store w) \<noteq> None"
    using that unfolding snd_r
    by (auto simp: restore_state_def saved backup_state_def Let_def map_of_dict_set)
  have nr: "number_registry_file (world_store (snd r)) = number_registry_file (world_store w)"
    if "number_registry_file (world_store w) \<noteq> None"
    using that unfolding snd_r
    by (auto simp: restore_state_def saved backup_state_def Let_def map_of_dict_set)
  from dry ci ss nr show ?thesis by blast
qed

text \<open>
  The claim as stated fails for \<open>hierarchy.json\<close>, which the snapshot does not cover.
  Two creates, the tracker accepting the first and refusing the second: the first
  registers its issue in the hierarchy and in the number registry, the rollback
  restores the number registry, and the hierarchy keeps the registration.
\<close>

theorem atomic_apply_counterexample:
  "(let r = engine_apply
       \<lparr>issue_create = (\<lambda>p n. if n = (0::nat)
                                then (Inr \<lparr>result_key = Some ''RAE-361'', result_uuid = None\<rparr>, 1)
                                else (Inl (LinctlError ''refused''), n)),
        issue_update = (\<lambda>i p n. (Inr (), n))\<rparr>
       \<lparr>dry_run = False, create_only = False, update_only = False, engine_team = Some ''RAE'',
        engine_project = None,
        mapper = \<lparr>story_bmad_to_linear = [], story_linear_to_bmad = [], epic_bmad_to_linear = [],
                  epic_linear_to_bmad = [], strict_mode = False, todo_to_bmad_logic = []\<rparr>,
        team_prefix = Some ''RAE''\<rparr>
       (Some ''P1'') (\<lambda>s. True) ''20251106140000'' ''2025-11-06T14:00:00''
       [\<lparr>op_action = ''create'', op_content_key = ''1-1-a'', op_content_type = ''story'',
          op_reason = ''added'', op_title = None, op_previous_hash = None,
          op_current_hash = Some ''h1'', op_issue_id = None, op_state = None,
          op_project = None, op_team = Some ''RAE'', op_labels = None\<rparr>,
        \<lparr>op_action = ''create'', op_content_key = ''1-2-b'', op_content_type = ''story'',
          op_reason = ''added'', op_title = None, op_previous_hash = None,
          op_current_hash = Some ''h2'', op_issue_id = None, op_state = None,
          op_project = None, op_team = Some ''RAE'', op_labels = None\<rparr>]
       \<lparr>world_store =
          \<lparr>content_index_file = Some \<lparr>last_scan = None, epics = [], stories = []\<rparr>,
           sync_state_file = Some \<lparr>state_last_sync = None, sync_operations = [], sync_errors = []\<rparr>,
           number_registry_file =
             Some \<lparr>registry_stories = [], registry_flat = [], renumbering_history = []\<rparr>,
           hierarchy_file = None, sync_report_file = None, pre_sync_backups = []\<rparr>,
        world_docs = [], world_tracker = 0\<rparr>
    in fst (snd (fst r)) = 1
       \<and> number_registry_file (world_store (snd r))
           = Some \<lparr>registry_stories = [], registry_flat = [], renumbering_history = []\<rparr>
       \<and> hierarchy_file (world_store (snd r))
           = Some \<lparr>relationships = [(''1-1-a'', ''epic-1'')], children = [(''epic-1'', [''1-1-a''])],
                   linear_epics = [], linear_stories = [(''1-1-a'', ''RAE-361'')]\<rparr>
       \<and> hierarchy_file (world_store (snd r)) \<noteq> None)"
  by code_simp


text \<open>
  The same run: one operation failed, and the three snapshot files are as they were
  before \<open>apply\<close>.
\<close>

theorem failed_apply_restores_snapshot_witness:
  "(let r = engine_apply
       \<lparr>issue_create = (\<lambda>p n. if n = (0::nat)
                                then (Inr \<lparr>result_key = Some ''RAE-361'', result_uuid = None\<rparr>, 1)
                                else (Inl (LinctlError ''refused''), n)),
        issue_update = (\<lambda>i p n. (Inr (), n))\<rparr>
       \<lparr>dry_run = False, create_only = False, update_only = False, engine_team = Some ''RAE'',
        engine_project = None,
        mapper = \<lparr>story_bmad_to_linear = [], story_linear_to_bmad = [], epic_bmad_to_linear = [],
                  epic_linear_to_bmad = [], strict_mode = False, todo_to_bmad_logic = []\<rparr>,
        team_prefix = Some ''RAE''\<rparr>
       (Some ''P1'') (\<lambda>s. True) ''20251106140000'' ''2025-11-06T14:00:00''
       [\<lparr>op_action = ''create'', op_content_key = ''1-1-a'', op_content_type = ''story'',
          op_reason = ''added'', op_title = None, op_previous_hash = None,
          op_current_hash = Some ''h1'', op_issue_id = None, op_state = None,
          op_project = None, op_team = Some ''RAE'', op_labels = None\<rparr>,
        \<lparr>op_action = ''create'', op_content_key = ''1-2-b'', op_content_type = ''story'',
          op_reason = ''added'', op_title = None, op_previous_hash = None,
          op_current_hash = Some ''h2'', op_issue_id = None, op_state = None,
          op_project = None, op_team = Some ''RAE'', op_labels = None\<rparr>]
       \<lparr>world_store =
          \<lparr>content_index_file = Some \<lparr>last_scan = None, epics = [], stories = []\<rparr>,
           sync_state_file = Some \<lparr>state_last_sync = None, sync_operations = [], sync_errors = []\<rparr>,
           number_registry_file =
             Some \<lparr>registry_stories = [], registry_flat = [], renumbering_history = []\<rparr>,
           hierarchy_file = None, sync_report_file = None, pre_sync_backups = []\<rparr>,
        world_docs = [], world_tracker = 0\<rparr>
    in 0 < fst (snd (fst r))
       \<and> content_index_file (world_store (snd r))
           = Some \<lparr>last_scan = None, epics = [], stories = []\<rparr>
       \<and> sync_state_file (world_store (snd r))
           = Some \<lparr>state_last_sync = None, sync_operations = [], sync_errors = []\<rparr>
       \<and> number_registry_file (world_store (snd r))
           = Some \<lparr>registry_stories = [], registry_flat = [], renumbering_history = []\<rparr>)"
proof -
  let ?r = "engine_apply
       \<lparr>issue_create = (\<lambda>p n. if n = (0::nat)
                                then (Inr \<lparr>result_key = Some ''RAE-361'', result_uuid = None\<rparr>, 1)
                                else (Inl (LinctlError ''refused''), n)),
        issue_update = (\<lambda>i p n. (Inr (), n))\<rparr>
       \<lparr>dry_run = False, create_only = False, update_only = False, engine_team = Some ''RAE'',
        engine_project = None,
        mapper = \<lparr>story_bmad_to_linear = [], story_linear_to_bmad = [], epic_bmad_to_linear = [],
                  epic_linear_to_bmad = [], strict_mode = False, todo_to_bmad_logic = []\<rparr>,
        team_prefix = Some ''RAE''\<rparr>
       (Some ''P1'') (\<lambda>s. True) ''20251106140000'' ''2025-11-06T14:00:00''
       [\<lparr>op_action = ''create'', op_content_key = ''1-1-a'', op_content_type = ''story'',
          op_reason = ''added'', op_title = None, op_previous_hash = None,
          op_current_hash = Some ''h1'', op_issue_id = None, op_state = None,
          op_project = None, op_team = Some ''RAE'', op_labels = None\<rparr>,
        \<lparr>op_action = ''create'', op_content_key = ''1-2-b'', op_content_type = ''story'',
          op_reason = ''added'', op_title = None, op_previous_hash = None,
          op_current_hash = Some ''h2'', op_issue_id = None, op_state = None,
          op_project = None, op_team = Some ''RAE'', op_labels = None\<rparr>]
       \<lparr>world_store =
          \<lparr>content_index_file = Some \<lparr>last_scan = None, epics = [], stories = []\<rparr>,
           sync_state_file = Some \<lparr>state_last_sync = None, sync_operations = [], sync_errors = []\<rparr>,
           number_registry_file =
             Some \<lparr>registry_stories = [], registry_flat = [], renumbering_history = []\<rparr>,
           hierarchy_file = None, sync_report_file = None, pre_sync_backups = []\<rparr>,
        world_docs = [], world_tracker = 0\<rparr>"
  have f: "0 < fst (snd (fst ?r))" by code_simp
  from failed_apply_restores_snapshot [OF f] f show ?thesis
    by (simp add: Let_def)
qed

end
